theory Spec2Isabelle
  imports Main "HOL-Library.Char_ord" "HOL-Library.List_Lexorder"
begin

section \<open>Python values, errors and output\<close>

text \<open>
  The exceptions that \<^verbatim>\<open>notification.py\<close> can end with. \<open>UsageError\<close> is
  \<^verbatim>\<open>ArgumentParser.error\<close>: it prints the message and exits the process with status 2.
  \<open>IndexError\<close> and \<open>KeyError\<close> are raised by indexing, \<open>OSError\<close> by \<^verbatim>\<open>open\<close>,
  \<open>RuntimeError\<close> by the explicit \<^verbatim>\<open>raise RuntimeError\<close> statements.
\<close>

datatype py_error = UsageError string | IndexError | KeyError | OSError | RuntimeError

text \<open>Truth value of an optional string (\<^verbatim>\<open>None\<close> and \<^verbatim>\<open>""\<close> are false).\<close>

fun truthy :: "string option \<Rightarrow> bool" where
  "truthy None = False"
| "truthy (Some s) = (s \<noteq> [])"

section \<open>Options\<close>

text \<open>The namespace returned by \<^verbatim>\<open>parse_args\<close>: one field per declared argument.\<close>

record parsed_args =
  arg_users :: "string list option"
  arg_user_list :: "string option"
  arg_url :: "string option"
  arg_deadline :: "string option"
  arg_message :: "string option"
  arg_dry :: bool

text \<open>
  The file system: the text of the file at a path, or \<open>None\<close> when \<^verbatim>\<open>open\<close> fails.
  The text is what text mode delivers, with line ends already translated to the newline
  character.
\<close>

type_synonym filesystem = "string \<Rightarrow> string option"

text \<open>
  \<^verbatim>\<open>for line in f\<close>: the lines of a text, each with its terminating newline; the last
  line has none when the text does not end with one.
\<close>

fun lines_from :: "string \<Rightarrow> string \<Rightarrow> string list" where
  "lines_from cur [] = (if cur = [] then [] else [cur])"
| "lines_from cur (c # cs) =
     (if c = CHR 0x0A then (cur @ [c]) # lines_from [] cs else lines_from (cur @ [c]) cs)"

definition file_lines :: "string \<Rightarrow> string list" where
  "file_lines text = lines_from [] text"

text \<open>\<^verbatim>\<open>line.rstrip('\n')\<close>\<close>

definition rstrip_newline :: "string \<Rightarrow> string" where
  "rstrip_newline s = rev (dropWhile (\<lambda>c. c = CHR 0x0A) (rev s))"

definition add_command_line_users :: "parsed_args \<Rightarrow> string list \<Rightarrow> string list" where
  "add_command_line_users a usernames =
     (case arg_users a of
        None \<Rightarrow> usernames
      | Some us \<Rightarrow> if us \<noteq> [] then usernames @ us else usernames)"

definition add_users_from_file ::
  "filesystem \<Rightarrow> parsed_args \<Rightarrow> string list \<Rightarrow> py_error + string list" where
  "add_users_from_file fs a usernames =
     (if truthy (arg_user_list a) then
        (case fs (the (arg_user_list a)) of
           None \<Rightarrow> Inl OSError
         | Some text \<Rightarrow> Inr (usernames @ map rstrip_newline (file_lines text)))
      else Inr usernames)"

definition compile_lists :: "filesystem \<Rightarrow> parsed_args \<Rightarrow> py_error + string list" where
  "compile_lists fs a = add_users_from_file fs a (add_command_line_users a [])"

text \<open>
  The loop of \<^verbatim>\<open>_normalize_usernames\<close>. \<^verbatim>\<open>user[0]\<close> raises IndexError on the empty
  string; \<^verbatim>\<open>user[1:]\<close> is the rest of the string.
\<close>

fun normalize_loop :: "string list \<Rightarrow> string set \<Rightarrow> py_error + string set" where
  "normalize_loop [] normalized = Inr normalized"
| "normalize_loop (user # rest) normalized =
     (case user of
        [] \<Rightarrow> Inl IndexError
      | c # cs \<Rightarrow>
          if c = CHR ''@'' then normalize_loop rest (insert cs normalized)
          else normalize_loop rest (insert user normalized))"

text \<open>
  \<^verbatim>\<open>str.casefold\<close> on ASCII text, where it is lower-casing; bytes outside
  \<open>A\<close>..\<open>Z\<close> are kept. Strings are compared as Python compares them, position by
  position on the character codes.
\<close>

definition casefold_char :: "char \<Rightarrow> char" where
  "casefold_char c =
     (if CHR ''A'' \<le> c \<and> c \<le> CHR ''Z'' then char_of (of_char c + (32::nat)) else c)"

definition casefold :: "string \<Rightarrow> string" where
  "casefold s = map casefold_char s"

text \<open>
  The order in which Python iterates over a set is not fixed by its elements' values. It is
  a parameter of the model: \<open>iter S\<close> is the order in which the run at hand enumerates the
  set \<open>S\<close>. Every enumeration lists each element once.
\<close>

definition set_iteration :: "(string set \<Rightarrow> string list) \<Rightarrow> bool" where
  "set_iteration iter = (\<forall>S. finite S \<longrightarrow> set (iter S) = S \<and> distinct (iter S))"

text \<open>\<^verbatim>\<open>sorted(normalized, key=lambda s: s.casefold())\<close>; \<^verbatim>\<open>sorted\<close> is stable.\<close>

definition normalize_usernames ::
  "(string set \<Rightarrow> string list) \<Rightarrow> string list \<Rightarrow> py_error + string list" where
  "normalize_usernames iter usernames =
     (case normalize_loop usernames {} of
        Inl e \<Rightarrow> Inl e
      | Inr normalized \<Rightarrow> Inr (sort_key casefold (iter normalized)))"

definition users_required :: string where
  "users_required = ''At least one user or file of users is required.''"

definition message_required :: string where
  "message_required = ''Either URL and deadline or message file is required.''"

definition store_args ::
  "(string set \<Rightarrow> string list) \<Rightarrow> filesystem \<Rightarrow> parsed_args \<Rightarrow> py_error + string list" where
  "store_args iter fs a =
     (case compile_lists fs a of
        Inl e \<Rightarrow> Inl e
      | Inr usernames \<Rightarrow>
          if usernames = [] then Inl (UsageError users_required)
          else if \<not> ((truthy (arg_url a) \<and> truthy (arg_deadline a)) \<or> truthy (arg_message a))
          then Inl (UsageError message_required)
          else normalize_usernames iter usernames)"

text \<open>Two enumeration orders, used to run the model: ascending and descending.\<close>

definition ascending_iteration :: "string set \<Rightarrow> string list" where
  "ascending_iteration S = sorted_list_of_set S"

definition descending_iteration :: "string set \<Rightarrow> string list" where
  "descending_iteration S = rev (sorted_list_of_set S)"

section \<open>The Slack client\<close>

text \<open>
  API responses are dictionaries; a key that may be absent is an optional field, and
  subscripting an absent key raises KeyError.
\<close>

record slack_profile =
  display_name_normalized :: "string option"
  first_name :: "string option"

record slack_member =
  member_id :: "string option"
  member_name :: "string option"
  member_real_name :: "string option"

record slack_metadata =
  next_cursor :: "string option"

record slack_response =
  ok :: "bool option"
  error :: "string option"
  members :: "slack_member list option"
  response_metadata :: "slack_metadata option"
  profile :: "slack_profile option"

text \<open>
  The three calls the program makes: \<^verbatim>\<open>users.profile.get\<close>, \<^verbatim>\<open>users.list\<close> with
  its limit and cursor, \<^verbatim>\<open>chat.postMessage\<close> with channel, text and as_user.
\<close>

datatype request =
  UsersProfileGet
| UsersList nat string
| ChatPostMessage string string string

text \<open>
  The remote service is a state machine outside the program: \<^verbatim>\<open>slack.api_call\<close> sends a
  request and gets a response, and the service moves to its next state.
\<close>

type_synonym 'srv slack = "'srv \<Rightarrow> request \<Rightarrow> slack_response \<times> 'srv"

text \<open>
  What a run does that can be observed, in order: lines printed, responses printed, API
  calls with the response each received, and pauses in seconds.
\<close>

datatype event =
  Print string
| PrintResponse slack_response
| ApiCall request slack_response
| Sleep nat

type_synonym 'srv world = "'srv \<times> event list"

section \<open>OriginatingUser\<close>

record OriginatingUser =
  username :: string
  firstname :: string

fun OriginatingUser_init ::
  "'srv slack \<Rightarrow> 'srv world \<Rightarrow> (py_error + OriginatingUser) \<times> 'srv world" where
  "OriginatingUser_init slack (srv, tr) =
     (let (response, srv') = slack srv UsersProfileGet;
          tr1 = tr @ [ApiCall UsersProfileGet response]
      in (case ok response of
            None \<Rightarrow> (Inl KeyError, srv', tr1)
          | Some b \<Rightarrow>
              if \<not> b then (Inl RuntimeError, srv', tr1 @ [PrintResponse response])
              else
                (case profile response of
                   None \<Rightarrow> (Inl KeyError, srv', tr1)
                 | Some p \<Rightarrow>
                     (case display_name_normalized p of
                        None \<Rightarrow> (Inl KeyError, srv', tr1)
                      | Some d \<Rightarrow>
                          (case first_name p of
                             None \<Rightarrow> (Inl KeyError, srv', tr1)
                           | Some f \<Rightarrow>
                               (Inr \<lparr>username = ''@'' @ d,
                                     firstname = (if f \<noteq> [] then f else ''@'' @ d)\<rparr>,
                                srv', tr1))))))"

section \<open>FetchUserIds\<close>

record User =
  user_id :: string
  name :: string

text \<open>
  The loop over \<^verbatim>\<open>response['members']\<close>. \<^verbatim>\<open>users.remove(x)\<close> deletes the first
  occurrence of \<open>x\<close> from the list.
\<close>

fun process_members ::
  "slack_member list \<Rightarrow> User list \<Rightarrow> string list \<Rightarrow> py_error + (User list \<times> string list)" where
  "process_members [] user_ids users = Inr (user_ids, users)"
| "process_members (m # rest) user_ids users =
     (case member_id m of
        None \<Rightarrow> Inl KeyError
      | Some i \<Rightarrow>
          let nm = (case member_name m of None \<Rightarrow> [] | Some n \<Rightarrow> n);
              real_name = (case member_real_name m of None \<Rightarrow> [] | Some n \<Rightarrow> n)
          in if nm \<in> set users
             then process_members rest (user_ids @ [\<lparr>user_id = i, name = nm\<rparr>]) (remove1 nm users)
             else if real_name \<in> set users
             then process_members rest (user_ids @ [\<lparr>user_id = i, name = real_name\<rparr>])
                    (remove1 real_name users)
             else process_members rest user_ids users)"

text \<open>\<^verbatim>\<open>if 'members' in response\<close>: a response without members leaves both lists as they are.\<close>

definition process_page ::
  "slack_response \<Rightarrow> User list \<Rightarrow> string list \<Rightarrow> py_error + (User list \<times> string list)" where
  "process_page response user_ids users =
     (case members response of
        None \<Rightarrow> Inr (user_ids, users)
      | Some ms \<Rightarrow> process_members ms user_ids users)"

text \<open>\<^verbatim>\<open>sub in s\<close> on strings: \<open>sub\<close> occurs in \<open>s\<close> as a contiguous piece.\<close>

fun starts_with :: "string \<Rightarrow> string \<Rightarrow> bool" where
  "starts_with [] s = True"
| "starts_with (a # as) [] = False"
| "starts_with (a # as) (c # cs) = (a = c \<and> starts_with as cs)"

fun str_contains :: "string \<Rightarrow> string \<Rightarrow> bool" where
  "str_contains sub [] = (sub = [])"
| "str_contains sub (c # cs) = (starts_with sub (c # cs) \<or> str_contains sub cs)"

text \<open>
  One pass through the body of \<^verbatim>\<open>while True\<close>, from the loop variables
  \<open>(user_ids, users, next)\<close>: \<open>Inl\<close> the loop variables for the next pass,
  \<open>Inr\<close> the outcome when the pass leaves the loop by \<^verbatim>\<open>return\<close> or \<^verbatim>\<open>raise\<close>.
\<close>

type_synonym fetch_vars = "User list \<times> string list \<times> string"

type_synonym fetch_result = "py_error + (User list \<times> string list)"

fun fetch_page ::
  "'srv slack \<Rightarrow> fetch_vars \<Rightarrow> 'srv world \<Rightarrow> (fetch_vars + fetch_result) \<times> 'srv world" where
  "fetch_page slack (user_ids, users, nxt) (srv, tr) =
     (let (response, srv') = slack srv (UsersList 250 nxt);
          tr1 = tr @ [ApiCall (UsersList 250 nxt) response]
      in (case ok response of
            None \<Rightarrow> (Inr (Inl KeyError), srv', tr1)
          | Some b \<Rightarrow>
              if \<not> b then
                (if (case error response of None \<Rightarrow> False | Some e \<Rightarrow> str_contains ''ratelimited'' e)
                 then (Inl (user_ids, users, nxt), srv', tr1 @ [Print ''pausing...'', Sleep 3])
                 else (Inr (Inl RuntimeError), srv', tr1 @ [PrintResponse response]))
              else
                (case process_page response user_ids users of
                   Inl e \<Rightarrow> (Inr (Inl e), srv', tr1)
                 | Inr (user_ids', users') \<Rightarrow>
                     if users' = [] then (Inr (Inr (user_ids', users')), srv', tr1)
                     else
                       (case response_metadata response of
                          None \<Rightarrow> (Inr (Inr (user_ids', users')), srv', tr1)
                        | Some md \<Rightarrow>
                            (case next_cursor md of
                               None \<Rightarrow> (Inr (Inr (user_ids', users')), srv', tr1)
                             | Some n \<Rightarrow>
                                 if n = [] then (Inr (Inr (user_ids', users')), srv', tr1)
                                 else (Inl (user_ids', users', n), srv', tr1))))))"

text \<open>
  The loop itself. It has no bound: a service that keeps answering with a rate limit, or
  with one more cursor, keeps it running, and then the value is \<open>None\<close>.
\<close>

partial_function (option) FetchUserIds_loop ::
  "'srv slack \<Rightarrow> fetch_vars \<Rightarrow> 'srv world \<Rightarrow> (fetch_result \<times> 'srv world) option" where
  "FetchUserIds_loop slack vars w =
     (case fetch_page slack vars w of
        (Inl vars', w') \<Rightarrow> FetchUserIds_loop slack vars' w'
      | (Inr res, w') \<Rightarrow> Some (res, w'))"

declare FetchUserIds_loop.simps [code]

definition FetchUserIds ::
  "'srv slack \<Rightarrow> string list \<Rightarrow> 'srv world \<Rightarrow> (fetch_result \<times> 'srv world) option" where
  "FetchUserIds slack users w = FetchUserIds_loop slack ([], users, []) w"

section \<open>Message\<close>

text \<open>
  \<^verbatim>\<open>default_message\<close>, cut at its replacement fields. The text is held as the bytes of
  its UTF-8 encoding; the three typographic quotation marks it uses are named here.
\<close>

definition rsquo :: string where
  "rsquo = [CHR 0xE2, CHR 0x80, CHR 0x99]"

definition ldquo :: string where
  "ldquo = [CHR 0xE2, CHR 0x80, CHR 0x9C]"

definition rdquo :: string where
  "rdquo = [CHR 0xE2, CHR 0x80, CHR 0x9D]"

datatype piece = Lit string | Field nat

definition default_message :: "piece list" where
  "default_message =
  [Lit ('':robot_face:I am a bot, posting on behalf of ''),
   Field 0,
   Lit (''. Beep-boop:robot_face:\<newline>'' @
          ''\<newline>'' @
          ''We'' @ rsquo @ ''re presently preparing to publish a newsletter for this slack, and\<newline>'' @
          ''some of the content you authored or participated or were named in has\<newline>'' @
          ''been selected for potential inclusion.  While all the content is\<newline>'' @
          ''public in channel history, we'' @ rsquo @ ''re attempting to make the collation\<newline>'' @
          ''process opt-in.\<newline>'' @
          ''\<newline>'' @
          ''The current draft is at ''),
   Field 1,
   Lit (''\<newline>'' @
          ''\<newline>'' @
          ''We would like you to agree to the inclusion of your content.  Ideally,\<newline>'' @
          ''you'' @ rsquo @ ''d provide blanket inclusion approval, but if you'' @ rsquo @ ''d like to have\<newline>'' @
          ''finer control, or even blanket exclusion, that'' @ rsquo @ ''s perfectly acceptable\<newline>'' @
          ''as well.\<newline>'' @
          ''\<newline>'' @
          ''*If you don'' @ rsquo @ ''t specifically approve your mentions/content by ''),
   Field 2,
   Lit ('', we will exclude it*.\<newline>'' @
          ''\<newline>''),
   Field 0,
   Lit ('' will see your response to this message, which can be as\<newline>'' @
          ''short as '' @ ldquo @ ''Ok'' @ rdquo @ '' (just this newsletter), '' @ ldquo @ ''Ok - always'' @ rdquo @ '', '' @ ldquo @ ''No'' @ rdquo @ '', and\<newline>'' @
          ldquo @ ''No - always'' @ rdquo @ '' (or :thumbsup:/:thumbsdown:).  (They are also available\<newline>'' @
          ''to reword how your contribution was presented if you feel it doesn'' @ [CHR 0x27] @ ''t match\<newline>'' @
          ''your intended message.)\<newline>'' @
          ''\<newline>'' @
          ''If you have questions, please either reply here, or in #rands-newsletter if\<newline>'' @
          ''they'' @ rsquo @ ''re more general.\<newline>'' @
          ''\<newline>'' @
          ''Thanks for being an active part of the community, and we look forward\<newline>'' @
          ''to hearing from you soon.\<newline>'' @
          ''\<newline>'' @
          '':robot_face:Beep-boop. Bot out:robot_face:'')]"

text \<open>
  \<^verbatim>\<open>template.format(a0, a1, a2)\<close>: each field \<^verbatim>\<open>{i}\<close> is replaced by the text of the
  \<open>i\<close>-th argument; a field number with no argument raises IndexError.
\<close>

fun format_pieces :: "piece list \<Rightarrow> string list \<Rightarrow> py_error + string" where
  "format_pieces [] args = Inr []"
| "format_pieces (Lit s # rest) args =
     (case format_pieces rest args of Inl e \<Rightarrow> Inl e | Inr t \<Rightarrow> Inr (s @ t))"
| "format_pieces (Field i # rest) args =
     (if i < length args
      then (case format_pieces rest args of Inl e \<Rightarrow> Inl e | Inr t \<Rightarrow> Inr (args ! i @ t))
      else Inl IndexError)"

text \<open>The text \<^verbatim>\<open>format\<close> inserts for an optional string: \<^verbatim>\<open>None\<close> is written out.\<close>

fun py_str :: "string option \<Rightarrow> string" where
  "py_str None = ''None''"
| "py_str (Some s) = s"

text \<open>\<^verbatim>\<open>Message.__init__\<close>: the value of \<^verbatim>\<open>self._message\<close>.\<close>

definition Message_init ::
  "filesystem \<Rightarrow> string option \<Rightarrow> string option \<Rightarrow> string option \<Rightarrow> OriginatingUser
     \<Rightarrow> py_error + string" where
  "Message_init fs message_file url deadline from_user =
     (case format_pieces default_message [firstname from_user, py_str url, py_str deadline] of
        Inl e \<Rightarrow> Inl e
      | Inr formatted \<Rightarrow>
          if truthy message_file then
            (case fs (the message_file) of None \<Rightarrow> Inl OSError | Some text \<Rightarrow> Inr text)
          else Inr formatted)"

text \<open>\<^verbatim>\<open>Message.send\<close>: the loop over the recipients, then the whole method.\<close>

fun send_loop ::
  "'srv slack \<Rightarrow> string \<Rightarrow> OriginatingUser \<Rightarrow> bool \<Rightarrow> User list \<Rightarrow> 'srv world
     \<Rightarrow> (py_error + unit) \<times> 'srv world" where
  "send_loop slack msg from_user dry [] w = (Inr (), w)"
| "send_loop slack msg from_user dry (user # rest) (srv, tr) =
     (if \<not> dry then
        (let tr1 = tr @ [Print (''Notifying @'' @ name user)];
             req = ChatPostMessage (user_id user) msg (username from_user);
             (response, srv') = slack srv req;
             tr2 = tr1 @ [ApiCall req response]
         in (case ok response of
               None \<Rightarrow> (Inl KeyError, srv', tr2)
             | Some b \<Rightarrow>
                 if \<not> b then (Inl RuntimeError, srv', tr2 @ [PrintResponse response])
                 else send_loop slack msg from_user dry rest (srv', tr2)))
      else send_loop slack msg from_user dry rest
             (srv, tr @ [Print (''Would have notified @'' @ name user)]))"

fun send ::
  "'srv slack \<Rightarrow> string \<Rightarrow> OriginatingUser \<Rightarrow> User list \<Rightarrow> bool \<Rightarrow> 'srv world
     \<Rightarrow> (py_error + unit) \<times> 'srv world" where
  "send slack msg from_user users dry (srv, tr) =
     send_loop slack msg from_user dry users
       (srv, if dry
             then tr @ [Print (replicate 80 CHR ''-''), Print msg,
                        Print (replicate 80 CHR ''-''), Print []]
             else tr)"

section \<open>The script\<close>

definition unidentified_report :: "string list \<Rightarrow> event list" where
  "unidentified_report unidentified_users =
     (if unidentified_users \<noteq> []
      then [Print [], Print ''*** Unable to identify the following users ***'']
           @ map (\<lambda>user. Print (''@'' @ user)) unidentified_users
      else [])"

text \<open>
  The body of \<^verbatim>\<open>if __name__ == '__main__'\<close>, started in service state \<open>srv\<close> with
  nothing printed yet. \<open>None\<close>: the run does not end.
\<close>

definition main ::
  "(string set \<Rightarrow> string list) \<Rightarrow> filesystem \<Rightarrow> 'srv slack \<Rightarrow> parsed_args \<Rightarrow> 'srv
     \<Rightarrow> ((py_error + unit) \<times> 'srv world) option" where
  "main iter fs slack a srv =
     (case store_args iter fs a of
        Inl e \<Rightarrow> Some (Inl e, srv, [])
      | Inr usernames \<Rightarrow>
          (case OriginatingUser_init slack (srv, []) of
             (Inl e, w1) \<Rightarrow> Some (Inl e, w1)
           | (Inr from_user, w1) \<Rightarrow>
               (case FetchUserIds slack usernames w1 of
                  None \<Rightarrow> None
                | Some (Inl e, w2) \<Rightarrow> Some (Inl e, w2)
                | Some (Inr (user_ids, unidentified_users), w2) \<Rightarrow>
                    (case Message_init fs (arg_message a) (arg_url a) (arg_deadline a) from_user of
                       Inl e \<Rightarrow> Some (Inl e, w2)
                     | Inr msg \<Rightarrow>
                         (case send slack msg from_user user_ids (arg_dry a) w2 of
                            (Inl e, w3) \<Rightarrow> Some (Inl e, w3)
                          | (Inr u, srv3, tr3) \<Rightarrow>
                              Some (Inr (), srv3,
                                    tr3 @ unidentified_report unidentified_users))))))"

text \<open>The texts of the messages posted in a run, read off its events.\<close>

fun posted_texts :: "event list \<Rightarrow> string list" where
  "posted_texts [] = []"
| "posted_texts (ApiCall (ChatPostMessage channel text as_user) response # es) =
     text # posted_texts es"
| "posted_texts (e # es) = posted_texts es"

section \<open>A scripted service\<close>

text \<open>
  A service that answers from a script, whatever the request: its state is the list of
  responses still to give. Once the script is used up it answers with an empty dictionary.
\<close>

definition empty_response :: slack_response where
  "empty_response =
     \<lparr>ok = None, error = None, members = None, response_metadata = None, profile = None\<rparr>"

fun scripted :: "slack_response list slack" where
  "scripted [] req = (empty_response, [])"
| "scripted (r # rs) req = (r, rs)"

text \<open>Responses and arguments for running the model.\<close>

definition example_page1 :: slack_response where
  "example_page1 =
     \<lparr>ok = Some True, error = None,
      members = Some [\<lparr>member_id = Some ''U1'', member_name = Some ''alice'',
                       member_real_name = Some ''bob''\<rparr>],
      response_metadata = Some \<lparr>next_cursor = Some ''c2''\<rparr>, profile = None\<rparr>"

definition example_page2 :: slack_response where
  "example_page2 =
     \<lparr>ok = Some True, error = None,
      members = Some [\<lparr>member_id = Some ''U2'', member_name = Some ''zed'',
                       member_real_name = Some ''alice''\<rparr>,
                      \<lparr>member_id = Some ''U3'', member_name = None,
                       member_real_name = Some ''bob''\<rparr>],
      response_metadata = None, profile = None\<rparr>"

definition example_rate_limited :: slack_response where
  "example_rate_limited =
     \<lparr>ok = Some False, error = Some ''ratelimited'', members = None,
      response_metadata = None, profile = None\<rparr>"

definition example_failure :: slack_response where
  "example_failure =
     \<lparr>ok = Some False, error = Some ''invalid_auth'', members = None,
      response_metadata = None, profile = None\<rparr>"

definition example_ok :: slack_response where
  "example_ok =
     \<lparr>ok = Some True, error = None, members = None, response_metadata = None, profile = None\<rparr>"

definition example_profile :: slack_response where
  "example_profile =
     \<lparr>ok = Some True, error = None, members = None, response_metadata = None,
      profile = Some \<lparr>display_name_normalized = Some ''ann'', first_name = Some ''Ann''\<rparr>\<rparr>"

definition example_args :: parsed_args where
  "example_args =
     \<lparr>arg_users = Some [''Alice'', ''@bob''], arg_user_list = None, arg_url = Some ''http://x'',
      arg_deadline = Some ''Monday'', arg_message = None, arg_dry = False\<rparr>"

definition example_page3 :: slack_response where
  "example_page3 =
     \<lparr>ok = Some True, error = None,
      members = Some [\<lparr>member_id = Some ''U1'', member_name = Some ''Alice'',
                       member_real_name = None\<rparr>],
      response_metadata = None, profile = None\<rparr>"

definition example_files :: filesystem where
  "example_files path = (if path = ''body.txt'' then Some ''Hi {0}'' else None)"

definition example_args_file :: parsed_args where
  "example_args_file =
     \<lparr>arg_users = Some [''Alice'', ''@bob''], arg_user_list = None, arg_url = None,
      arg_deadline = None, arg_message = Some ''body.txt'', arg_dry = False\<rparr>"

definition example_args_dry :: parsed_args where
  "example_args_dry =
     \<lparr>arg_users = Some [''Alice'', ''@bob''], arg_user_list = None, arg_url = None,
      arg_deadline = None, arg_message = Some ''body.txt'', arg_dry = True\<rparr>"




section \<open>Name normalization\<close>

lemma normalize_loop_empty_name:
  "[] \<in> set usernames \<Longrightarrow> normalize_loop usernames S = Inl IndexError"
  by (induction usernames arbitrary: S) (auto split: list.splits)

lemma normalize_loop_stored:
  "[] \<notin> set usernames \<Longrightarrow>
   normalize_loop usernames S =
     Inr (S \<union> (\<lambda>u. if hd u = CHR ''@'' then tl u else u) ` set usernames)"
  by (induction usernames arbitrary: S) (auto split: list.splits)

lemma set_iteration_ascending: "set_iteration ascending_iteration"
  by (simp add: set_iteration_def ascending_iteration_def)

lemma set_iteration_descending: "set_iteration descending_iteration"
  by (simp add: set_iteration_def descending_iteration_def)


text \<open>
  Claim C10. Normalization succeeds on every list whose names are all non-empty, and on a
  list that holds an empty name it ends with IndexError: the name is neither stored nor
  rejected. A blank line in the user-list file puts such a name in the list.
\<close>

theorem normalize_usernames_total_iff_nonempty:
  "([] \<notin> set usernames \<longrightarrow> (\<exists>ys. normalize_usernames iter usernames = Inr ys)) \<and>
   ([] \<in> set usernames \<longrightarrow> normalize_usernames iter usernames = Inl IndexError)"
  by (simp add: normalize_usernames_def normalize_loop_empty_name normalize_loop_stored)

theorem normalize_usernames_total_iff_nonempty_witness:
  "compile_lists (\<lambda>p. if p = ''users.txt'' then Some ''alice\<newline>\<newline>bob\<newline>'' else None)
     \<lparr>arg_users = None, arg_user_list = Some ''users.txt'', arg_url = Some ''http://x'',
      arg_deadline = Some ''Monday'', arg_message = None, arg_dry = False\<rparr>
     = Inr [''alice'', [], ''bob''] \<and>
   [] \<in> set [''alice'', [], ''bob''] \<and>
   normalize_usernames ascending_iteration [''alice'', [], ''bob''] = Inl IndexError \<and>
   [] \<notin> set [''alice'', ''bob''] \<and>
   (\<exists>ys. normalize_usernames ascending_iteration [''alice'', ''bob''] = Inr ys)"
proof -
  have 1: "compile_lists (\<lambda>p. if p = ''users.txt'' then Some ''alice\<newline>\<newline>bob\<newline>'' else None)
     \<lparr>arg_users = None, arg_user_list = Some ''users.txt'', arg_url = Some ''http://x'',
      arg_deadline = Some ''Monday'', arg_message = None, arg_dry = False\<rparr>
     = Inr [''alice'', [], ''bob'']"
    by code_simp
  have 2: "[] \<in> set [''alice'', [], ''bob'']" by simp
  have 3: "[] \<notin> set [''alice'', ''bob'']" by simp
  show ?thesis
    using 1 2 3
      normalize_usernames_total_iff_nonempty [of "[''alice'', [], ''bob'']" ascending_iteration]
      normalize_usernames_total_iff_nonempty [of "[''alice'', ''bob'']" ascending_iteration]
    by blast
qed

lemma sorted_three:
  fixes k :: "'a \<Rightarrow> 'k::linorder"
  assumes "distinct ys" "set ys = {x, y, z}" "sorted (map k ys)"
    and "k z < k x" "k z < k y" "x \<noteq> y"
  shows "ys = [z, x, y] \<or> ys = [z, y, x]"
proof -
  from assms have ne: "z \<noteq> x" "z \<noteq> y" by auto
  have "card (set ys) = 3" using assms(2,6) ne by simp
  then have "length ys = 3"
    using distinct_card [OF assms(1)] by simp
  then obtain a b c where ys: "ys = [a, b, c]"
    by (metis (no_types, lifting) length_0_conv length_Suc_conv numeral_3_eq_3)
  from assms(3) ys have le: "k a \<le> k b" "k b \<le> k c" by auto
  from assms(2) ys have mem: "a \<in> {x, y, z}" "b \<in> {x, y, z}" "c \<in> {x, y, z}"
    "z \<in> {a, b, c}" "x \<in> {a, b, c}" "y \<in> {a, b, c}"
    by auto
  from assms(1) ys have d: "a \<noteq> b" "b \<noteq> c" "a \<noteq> c" by auto
  have "a = z"
    using le mem d assms(4,5) by (metis insertE singletonD leD order.trans)
  with mem d show ?thesis unfolding ys by auto
qed

lemma normalize_usernames_result:
  assumes "set_iteration iter" "[] \<notin> set usernames"
  shows "\<exists>ys. normalize_usernames iter usernames = Inr ys \<and> distinct ys \<and>
           sorted (map casefold ys) \<and>
           set ys = (\<lambda>u. if hd u = CHR ''@'' then tl u else u) ` set usernames"
proof -
  let ?S = "(\<lambda>u. if hd u = CHR ''@'' then tl u else u) ` set usernames"
  have fin: "finite ?S" by simp
  from assms(1) fin have "set (iter ?S) = ?S" "distinct (iter ?S)"
    unfolding set_iteration_def by blast+
  then show ?thesis
    using assms(2) by (simp add: normalize_usernames_def normalize_loop_stored)
qed

text \<open>The names handed to the directory lookup are distinct.\<close>

lemma store_args_distinct:
  assumes "set_iteration iter" "store_args iter fs a = Inr usernames"
  shows "distinct usernames"
proof -
  from assms(2) obtain compiled where c: "compile_lists fs a = Inr compiled"
    and n: "normalize_usernames iter compiled = Inr usernames"
    by (auto simp: store_args_def split: sum.splits if_splits)
  have ne: "[] \<notin> set compiled"
  proof
    assume "[] \<in> set compiled"
    then have "normalize_usernames iter compiled = Inl IndexError"
      by (simp add: normalize_usernames_def normalize_loop_empty_name)
    with n show False by simp
  qed
  from normalize_usernames_result [OF assms(1) ne] n show ?thesis by auto
qed

text \<open>
  Claim C2, as amended. The names are deduplicated as they are written, so \<open>Bob\<close> and
  \<open>bob\<close> are both kept: for the input \<open>@Bob, bob, Alice\<close> the result has three
  names, \<open>Alice\<close> first and then the two bob-variants in the order in which the set
  yields them.
\<close>

theorem normalize_bob_alice:
  assumes "set_iteration iter"
  shows "normalize_usernames iter [''@Bob'', ''bob'', ''Alice''] = Inr [''Alice'', ''Bob'', ''bob''] \<or>
         normalize_usernames iter [''@Bob'', ''bob'', ''Alice''] = Inr [''Alice'', ''bob'', ''Bob'']"
proof -
  have ne: "[] \<notin> set [''@Bob'', ''bob'', ''Alice'']" by simp
  from normalize_usernames_result [OF assms ne]
  obtain ys where ys: "normalize_usernames iter [''@Bob'', ''bob'', ''Alice''] = Inr ys"
    "distinct ys" "sorted (map casefold ys)"
    "set ys = (\<lambda>u. if hd u = CHR ''@'' then tl u else u) ` set [''@Bob'', ''bob'', ''Alice'']"
    by blast
  have S: "set ys = {''Bob'', ''bob'', ''Alice''}"
    unfolding ys(4) by (simp add: insert_commute)
  have lt: "casefold ''Alice'' < casefold ''Bob''" "casefold ''Alice'' < casefold ''bob''"
    by code_simp+
  have neq: "''Bob'' \<noteq> ''bob''" by simp
  from sorted_three [OF ys(2) S ys(3) lt neq] ys(1) show ?thesis by simp
qed

theorem normalize_bob_alice_witness:
  "set_iteration descending_iteration \<and>
   (normalize_usernames descending_iteration [''@Bob'', ''bob'', ''Alice'']
      = Inr [''Alice'', ''Bob'', ''bob''] \<or>
    normalize_usernames descending_iteration [''@Bob'', ''bob'', ''Alice'']
      = Inr [''Alice'', ''bob'', ''Bob''])"
  using normalize_bob_alice [OF set_iteration_descending] set_iteration_descending by simp

text \<open>
  The claim as written fails on this input: both enumeration orders give three names.
\<close>

theorem normalize_bob_alice_counterexample:
  "normalize_usernames ascending_iteration [''@Bob'', ''bob'', ''Alice'']
     = Inr [''Alice'', ''Bob'', ''bob''] \<and>
   normalize_usernames descending_iteration [''@Bob'', ''bob'', ''Alice'']
     = Inr [''Alice'', ''bob'', ''Bob'']"
  by code_simp

text \<open>
  Claim C3, as amended. Every non-empty input name is stored without its leading sigil when
  it has one, and unchanged otherwise. Exactly one sigil is removed, so normalizing the
  result once more leaves the stored names unchanged when none of them is empty or begins
  with a sigil.
\<close>

theorem normalize_usernames_strips_sigil:
  assumes "set_iteration iter" "set_iteration iter'" "[] \<notin> set usernames"
  shows "\<exists>ys. normalize_usernames iter usernames = Inr ys \<and>
           set ys = (\<lambda>u. if hd u = CHR ''@'' then tl u else u) ` set usernames \<and>
           ((\<forall>y \<in> set ys. y \<noteq> [] \<and> hd y \<noteq> CHR ''@'') \<longrightarrow>
              (\<exists>ys'. normalize_usernames iter' ys = Inr ys' \<and> distinct ys' \<and> set ys' = set ys))"
proof -
  from normalize_usernames_result [OF assms(1,3)]
  obtain ys where ys: "normalize_usernames iter usernames = Inr ys"
    "set ys = (\<lambda>u. if hd u = CHR ''@'' then tl u else u) ` set usernames"
    by blast
  have "\<exists>ys'. normalize_usernames iter' ys = Inr ys' \<and> distinct ys' \<and> set ys' = set ys"
    if clean: "\<forall>y \<in> set ys. y \<noteq> [] \<and> hd y \<noteq> CHR ''@''"
  proof -
    from clean have ne: "[] \<notin> set ys" by blast
    from normalize_usernames_result [OF assms(2) ne]
    obtain ys' where ys': "normalize_usernames iter' ys = Inr ys'" "distinct ys'"
      "set ys' = (\<lambda>u. if hd u = CHR ''@'' then tl u else u) ` set ys"
      by blast
    from clean have "(\<lambda>u. if hd u = CHR ''@'' then tl u else u) ` set ys = set ys"
      by force
    with ys' show ?thesis by simp
  qed
  with ys show ?thesis by blast
qed

theorem normalize_usernames_strips_sigil_witness:
  "set_iteration ascending_iteration \<and> set_iteration descending_iteration \<and>
   [] \<notin> set [''@bob'', ''Alice''] \<and>
   (\<exists>ys. normalize_usernames ascending_iteration [''@bob'', ''Alice''] = Inr ys \<and>
      set ys = {''bob'', ''Alice''} \<and>
      (\<forall>y \<in> set ys. y \<noteq> [] \<and> hd y \<noteq> CHR ''@'') \<and>
      (\<exists>ys'. normalize_usernames descending_iteration ys = Inr ys' \<and> distinct ys' \<and>
         set ys' = set ys))"
proof -
  have ne: "[] \<notin> set [''@bob'', ''Alice'']" by simp
  from normalize_usernames_strips_sigil [OF set_iteration_ascending set_iteration_descending ne]
  obtain ys where ys: "normalize_usernames ascending_iteration [''@bob'', ''Alice''] = Inr ys"
    "set ys = (\<lambda>u. if hd u = CHR ''@'' then tl u else u) ` set [''@bob'', ''Alice'']"
    "(\<forall>y \<in> set ys. y \<noteq> [] \<and> hd y \<noteq> CHR ''@'') \<longrightarrow>
       (\<exists>ys'. normalize_usernames descending_iteration ys = Inr ys' \<and> distinct ys' \<and>
          set ys' = set ys)"
    by blast
  have S: "set ys = {''bob'', ''Alice''}" unfolding ys(2) by (simp add: insert_commute)
  then have clean: "\<forall>y \<in> set ys. y \<noteq> [] \<and> hd y \<noteq> CHR ''@''" by simp
  with ys(3) have "\<exists>ys'. normalize_usernames descending_iteration ys = Inr ys' \<and> distinct ys' \<and>
          set ys' = set ys" by blast
  with ys(1) S clean set_iteration_ascending set_iteration_descending ne show ?thesis
    by blast
qed


text \<open>
  The claim as written fails on a name with two sigils, which is stored with one and loses
  it in a second pass, and on the name that is only a sigil, whose stored form makes the
  second pass end with IndexError.
\<close>

theorem normalize_twice_counterexample:
  "normalize_usernames ascending_iteration [''@@bob''] = Inr [''@bob''] \<and>
   normalize_usernames ascending_iteration [''@bob''] = Inr [''bob''] \<and>
   normalize_usernames ascending_iteration [''@''] = Inr [[]] \<and>
   normalize_usernames ascending_iteration [[]] = Inl IndexError"
  by code_simp

section \<open>Directory lookup\<close>

lemma FetchUserIds_loop_rule:
  assumes run: "FetchUserIds_loop slack vars w = Some (res, w')"
    and init: "I vars w"
    and step: "\<And>v x v' x'. I v x \<Longrightarrow> fetch_page slack v x = (Inl v', x') \<Longrightarrow> I v' x'"
    and fin: "\<And>v x r x'. I v x \<Longrightarrow> fetch_page slack v x = (Inr r, x') \<Longrightarrow> Q r x'"
  shows "Q res w'"
proof -
  have "slack = slack \<longrightarrow> I vars w \<longrightarrow> Q (fst (res, w')) (snd (res, w'))"
  proof (rule FetchUserIds_loop.raw_induct
      [where P = "\<lambda>sl v x y. sl = slack \<longrightarrow> I v x \<longrightarrow> Q (fst y) (snd y)", OF _ run])
    fix loop :: "'a slack \<Rightarrow> fetch_vars \<Rightarrow> 'a world \<Rightarrow> (fetch_result \<times> 'a world) option"
      and sl v x y
    assume IH: "\<And>sl v x y. loop sl v x = Some y \<Longrightarrow> sl = slack \<longrightarrow> I v x \<longrightarrow> Q (fst y) (snd y)"
      and body: "(case fetch_page sl v x of
                    (Inl vars', w') \<Rightarrow> loop sl vars' w'
                  | (Inr res, w') \<Rightarrow> Some (res, w')) = Some y"
    show "sl = slack \<longrightarrow> I v x \<longrightarrow> Q (fst y) (snd y)"
    proof (intro impI)
      assume sl: "sl = slack" and iv: "I v x"
      obtain o' x' where fp: "fetch_page slack v x = (o', x')" by (cases "fetch_page slack v x")
      show "Q (fst y) (snd y)"
      proof (cases o')
        case (Inl v')
        with body fp sl have "loop slack v' x' = Some y" by simp
        moreover from step [OF iv] fp Inl have "I v' x'" by simp
        ultimately show ?thesis using IH by blast
      next
        case (Inr r)
        with body fp sl have "y = (r, x')" by simp
        with fin [OF iv] fp Inr show ?thesis by simp
      qed
    qed
  qed
  with init show ?thesis by simp
qed




lemma fetch_page_rate_limited:
  assumes "slack srv (UsersList 250 nxt) = (r, srv')" "ok r = Some False"
    "error r = Some e" "str_contains ''ratelimited'' e"
  shows "fetch_page slack (user_ids, users, nxt) (srv, tr) =
           (Inl (user_ids, users, nxt), srv',
            tr @ [ApiCall (UsersList 250 nxt) r, Print ''pausing...'', Sleep 3])"
  using assms by (simp add: Let_def)

lemma fetch_page_failure:
  assumes "slack srv (UsersList 250 nxt) = (r, srv')" "ok r = Some False"
    "\<not> (case error r of None \<Rightarrow> False | Some e \<Rightarrow> str_contains ''ratelimited'' e)"
  shows "fetch_page slack (user_ids, users, nxt) (srv, tr) =
           (Inr (Inl RuntimeError), srv',
            tr @ [ApiCall (UsersList 250 nxt) r, PrintResponse r])"
  using assms by (simp add: Let_def)

lemma fetch_page_success:
  assumes "slack srv (UsersList 250 nxt) = (r, srv')" "ok r = Some True"
    "process_page r user_ids users = Inr (user_ids', users')"
  shows "fetch_page slack (user_ids, users, nxt) (srv, tr) =
           (if users' = [] \<or>
               (case response_metadata r of
                  None \<Rightarrow> True
                | Some md \<Rightarrow> (case next_cursor md of None \<Rightarrow> True | Some n \<Rightarrow> n = []))
            then Inr (Inr (user_ids', users'))
            else Inl (user_ids', users', the (next_cursor (the (response_metadata r)))),
            srv', tr @ [ApiCall (UsersList 250 nxt) r])"
  using assms by (auto simp: Let_def split: option.splits)

lemma fetch_page_cases:
  obtains (missing) r srv' where "slack srv (UsersList 250 nxt) = (r, srv')" "ok r = None"
      "fetch_page slack (user_ids, users, nxt) (srv, tr) =
         (Inr (Inl KeyError), srv', tr @ [ApiCall (UsersList 250 nxt) r])"
  | (limited) r srv' where "slack srv (UsersList 250 nxt) = (r, srv')"
      "fetch_page slack (user_ids, users, nxt) (srv, tr) =
         (Inl (user_ids, users, nxt), srv',
          tr @ [ApiCall (UsersList 250 nxt) r, Print ''pausing...'', Sleep 3])"
  | (failed) r srv' where "slack srv (UsersList 250 nxt) = (r, srv')"
      "fetch_page slack (user_ids, users, nxt) (srv, tr) =
         (Inr (Inl RuntimeError), srv', tr @ [ApiCall (UsersList 250 nxt) r, PrintResponse r])"
  | (raised) r srv' e where "slack srv (UsersList 250 nxt) = (r, srv')"
      "fetch_page slack (user_ids, users, nxt) (srv, tr) =
         (Inr (Inl e), srv', tr @ [ApiCall (UsersList 250 nxt) r])"
  | (returned) r srv' user_ids' users' where "slack srv (UsersList 250 nxt) = (r, srv')"
      "process_page r user_ids users = Inr (user_ids', users')"
      "fetch_page slack (user_ids, users, nxt) (srv, tr) =
         (Inr (Inr (user_ids', users')), srv', tr @ [ApiCall (UsersList 250 nxt) r])"
  | (continued) r srv' user_ids' users' nxt' where "slack srv (UsersList 250 nxt) = (r, srv')"
      "process_page r user_ids users = Inr (user_ids', users')"
      "fetch_page slack (user_ids, users, nxt) (srv, tr) =
         (Inl (user_ids', users', nxt'), srv', tr @ [ApiCall (UsersList 250 nxt) r])"
proof -
  obtain r srv' where call: "slack srv (UsersList 250 nxt) = (r, srv')"
    by (cases "slack srv (UsersList 250 nxt)")
  show ?thesis
  proof (cases "ok r")
    case None
    with call missing show ?thesis by (simp add: Let_def)
  next
    case (Some b)
    show ?thesis
    proof (cases b)
      case False
      with Some call limited failed show ?thesis
        by (cases "case error r of None \<Rightarrow> False | Some e \<Rightarrow> str_contains ''ratelimited'' e")
           (simp_all add: Let_def)
    next
      case True
      show ?thesis
      proof (cases "process_page r user_ids users")
        case (Inl e)
        with True Some call raised show ?thesis by (simp add: Let_def)
      next
        case (Inr p)
        obtain a b where p: "p = (a, b)" by (cases p)
        let ?stop = "b = [] \<or>
               (case response_metadata r of
                  None \<Rightarrow> True
                | Some md \<Rightarrow> (case next_cursor md of None \<Rightarrow> True | Some n \<Rightarrow> n = []))"
        from fetch_page_success [of slack srv nxt r srv' user_ids users a b tr] call True Some Inr p
        have "fetch_page slack (user_ids, users, nxt) (srv, tr) =
           (if ?stop then Inr (Inr (a, b))
            else Inl (a, b, the (next_cursor (the (response_metadata r)))),
            srv', tr @ [ApiCall (UsersList 250 nxt) r])" by simp
        with call Inr p returned continued show ?thesis
          by (cases ?stop) simp_all
      qed
    qed
  qed
qed




lemma fetch_page_request:
  "\<exists>out srv2 rest. fetch_page slack (user_ids, users, nxt) (srv, tr) =
      (out, srv2, tr @ ApiCall (UsersList 250 nxt) (fst (slack srv (UsersList 250 nxt))) # rest)"
  by (cases rule: fetch_page_cases [of slack srv nxt user_ids users tr]) simp_all

lemma main_fetch_raises:
  assumes "store_args iter fs a = Inr usernames"
    "OriginatingUser_init slack (srv, []) = (Inr from_user, w1)"
    "FetchUserIds slack usernames w1 = Some (Inl e, w2)"
  shows "main iter fs slack a srv = Some (Inl e, w2)"
  using assms by (simp add: main_def)



text \<open>
  Claim C5. A response that is not a success and whose error text holds \<open>ratelimited\<close>
  changes neither the recipients found nor the outstanding names nor the cursor; the loop
  prints its notice, pauses 3 seconds and goes on, and its next request is the same page.
  Any other response that is not a success makes the lookup raise RuntimeError after
  printing the response, and the run ends there.
\<close>

theorem rate_limited_page_is_retried:
  assumes "slack srv (UsersList 250 nxt) = (r, srv')" "ok r = Some False"
  shows "((\<exists>e. error r = Some e \<and> str_contains ''ratelimited'' e) \<longrightarrow>
            fetch_page slack (user_ids, users, nxt) (srv, tr) =
              (Inl (user_ids, users, nxt), srv',
               tr @ [ApiCall (UsersList 250 nxt) r, Print ''pausing...'', Sleep 3]) \<and>
            FetchUserIds_loop slack (user_ids, users, nxt) (srv, tr) =
              FetchUserIds_loop slack (user_ids, users, nxt)
                (srv', tr @ [ApiCall (UsersList 250 nxt) r, Print ''pausing...'', Sleep 3]) \<and>
            (\<exists>out srv2 rest.
               fetch_page slack (user_ids, users, nxt)
                 (srv', tr @ [ApiCall (UsersList 250 nxt) r, Print ''pausing...'', Sleep 3]) =
               (out, srv2,
                (tr @ [ApiCall (UsersList 250 nxt) r, Print ''pausing...'', Sleep 3])
                  @ ApiCall (UsersList 250 nxt) (fst (slack srv' (UsersList 250 nxt))) # rest))) \<and>
         (\<not> (\<exists>e. error r = Some e \<and> str_contains ''ratelimited'' e) \<longrightarrow>
            FetchUserIds_loop slack (user_ids, users, nxt) (srv, tr) =
              Some (Inl RuntimeError, srv', tr @ [ApiCall (UsersList 250 nxt) r, PrintResponse r]) \<and>
            (\<forall>iter fs a srv0 from_user usernames w1.
               store_args iter fs a = Inr usernames \<and>
               OriginatingUser_init slack (srv0, []) = (Inr from_user, w1) \<and>
               FetchUserIds slack usernames w1 =
                 FetchUserIds_loop slack (user_ids, users, nxt) (srv, tr) \<longrightarrow>
               main iter fs slack a srv0 =
                 Some (Inl RuntimeError, srv', tr @ [ApiCall (UsersList 250 nxt) r, PrintResponse r])))"
proof (intro conjI impI)
  assume "\<exists>e. error r = Some e \<and> str_contains ''ratelimited'' e"
  then obtain e where e: "error r = Some e" "str_contains ''ratelimited'' e" by blast
  from fetch_page_rate_limited [where slack = slack, OF assms e]
  show fp: "fetch_page slack (user_ids, users, nxt) (srv, tr) =
              (Inl (user_ids, users, nxt), srv',
               tr @ [ApiCall (UsersList 250 nxt) r, Print ''pausing...'', Sleep 3])" .
  show "FetchUserIds_loop slack (user_ids, users, nxt) (srv, tr) =
              FetchUserIds_loop slack (user_ids, users, nxt)
                (srv', tr @ [ApiCall (UsersList 250 nxt) r, Print ''pausing...'', Sleep 3])"
    by (subst FetchUserIds_loop.simps) (simp only: fp prod.case sum.case)
  show "\<exists>out srv2 rest.
               fetch_page slack (user_ids, users, nxt)
                 (srv', tr @ [ApiCall (UsersList 250 nxt) r, Print ''pausing...'', Sleep 3]) =
               (out, srv2,
                (tr @ [ApiCall (UsersList 250 nxt) r, Print ''pausing...'', Sleep 3])
                  @ ApiCall (UsersList 250 nxt) (fst (slack srv' (UsersList 250 nxt))) # rest)"
    by (rule fetch_page_request)
next
  assume "\<not> (\<exists>e. error r = Some e \<and> str_contains ''ratelimited'' e)"
  then have "\<not> (case error r of None \<Rightarrow> False | Some e \<Rightarrow> str_contains ''ratelimited'' e)"
    by (cases "error r") simp_all
  from fetch_page_failure [where slack = slack, OF assms this]
  have fp: "fetch_page slack (user_ids, users, nxt) (srv, tr) =
           (Inr (Inl RuntimeError), srv', tr @ [ApiCall (UsersList 250 nxt) r, PrintResponse r])" .
  show loop: "FetchUserIds_loop slack (user_ids, users, nxt) (srv, tr) =
              Some (Inl RuntimeError, srv', tr @ [ApiCall (UsersList 250 nxt) r, PrintResponse r])"
    by (subst FetchUserIds_loop.simps) (simp only: fp prod.case sum.case)
  show "\<forall>iter fs a srv0 from_user usernames w1.
               store_args iter fs a = Inr usernames \<and>
               OriginatingUser_init slack (srv0, []) = (Inr from_user, w1) \<and>
               FetchUserIds slack usernames w1 =
                 FetchUserIds_loop slack (user_ids, users, nxt) (srv, tr) \<longrightarrow>
               main iter fs slack a srv0 =
                 Some (Inl RuntimeError, srv', tr @ [ApiCall (UsersList 250 nxt) r, PrintResponse r])"
  proof (intro allI impI)
    fix iter fs a srv0 from_user usernames w1
    assume h: "store_args iter fs a = Inr usernames \<and>
               OriginatingUser_init slack (srv0, []) = (Inr from_user, w1) \<and>
               FetchUserIds slack usernames w1 =
                 FetchUserIds_loop slack (user_ids, users, nxt) (srv, tr)"
    with loop have "FetchUserIds slack usernames w1 =
        Some (Inl RuntimeError, srv', tr @ [ApiCall (UsersList 250 nxt) r, PrintResponse r])"
      by simp
    with h show "main iter fs slack a srv0 =
                 Some (Inl RuntimeError, srv', tr @ [ApiCall (UsersList 250 nxt) r, PrintResponse r])"
      by (intro main_fetch_raises [where usernames = usernames and from_user = from_user]) simp_all
  qed
qed


theorem rate_limited_page_is_retried_witness:
  "scripted [example_rate_limited, example_failure] (UsersList 250 [])
     = (example_rate_limited, [example_failure]) \<and>
   ok example_rate_limited = Some False \<and>
   (\<exists>e. error example_rate_limited = Some e \<and> str_contains ''ratelimited'' e) \<and>
   fetch_page scripted ([], [''Alice'', ''bob''], []) ([example_rate_limited, example_failure], [])
     = (Inl ([], [''Alice'', ''bob''], []), [example_failure],
        [] @ [ApiCall (UsersList 250 []) example_rate_limited, Print ''pausing...'', Sleep 3]) \<and>
   scripted [example_failure] (UsersList 250 []) = (example_failure, []) \<and>
   ok example_failure = Some False \<and>
   \<not> (\<exists>e. error example_failure = Some e \<and> str_contains ''ratelimited'' e) \<and>
   main ascending_iteration (\<lambda>p. None) scripted example_args
     [example_profile, example_rate_limited, example_failure]
     = Some (Inl RuntimeError, [],
         [ApiCall UsersProfileGet example_profile,
          ApiCall (UsersList 250 []) example_rate_limited, Print ''pausing...'', Sleep 3]
         @ [ApiCall (UsersList 250 []) example_failure, PrintResponse example_failure])"
proof -
  let ?tr1 = "[ApiCall UsersProfileGet example_profile]"
  let ?tr2 = "[ApiCall UsersProfileGet example_profile,
          ApiCall (UsersList 250 []) example_rate_limited, Print ''pausing...'', Sleep 3]"
  have c1: "scripted [example_rate_limited, example_failure] (UsersList 250 [])
     = (example_rate_limited, [example_failure])" by simp
  have o1: "ok example_rate_limited = Some False" by (simp add: example_rate_limited_def)
  have e1: "\<exists>e. error example_rate_limited = Some e \<and> str_contains ''ratelimited'' e"
    by (simp add: example_rate_limited_def)
  have c2: "scripted [example_failure] (UsersList 250 []) = (example_failure, [])" by simp
  have o2: "ok example_failure = Some False" by (simp add: example_failure_def)
  have e2: "\<not> (\<exists>e. error example_failure = Some e \<and> str_contains ''ratelimited'' e)"
    by (simp add: example_failure_def)
  have sa: "store_args ascending_iteration (\<lambda>p. None) example_args = Inr [''Alice'', ''bob'']"
    by code_simp
  have ou: "OriginatingUser_init scripted
              ([example_profile, example_rate_limited, example_failure], [])
            = (Inr \<lparr>username = ''@ann'', firstname = ''Ann''\<rparr>,
               [example_rate_limited, example_failure], ?tr1)"
    by code_simp
  have reach: "FetchUserIds scripted [''Alice'', ''bob''] ([example_rate_limited, example_failure], ?tr1)
      = FetchUserIds_loop scripted ([], [''Alice'', ''bob''], []) ([example_failure], ?tr2)"
    by code_simp
  from rate_limited_page_is_retried [where slack = scripted, OF c1 o1, of "[]" "[''Alice'', ''bob'']" "[]"] e1
  have a: "fetch_page scripted ([], [''Alice'', ''bob''], []) ([example_rate_limited, example_failure], [])
     = (Inl ([], [''Alice'', ''bob''], []), [example_failure],
        [] @ [ApiCall (UsersList 250 []) example_rate_limited, Print ''pausing...'', Sleep 3])"
    by blast
  from rate_limited_page_is_retried [where slack = scripted, OF c2 o2, of "[]" "[''Alice'', ''bob'']" ?tr2] e2 sa ou reach
  have b: "main ascending_iteration (\<lambda>p. None) scripted example_args
     [example_profile, example_rate_limited, example_failure]
     = Some (Inl RuntimeError, [],
         ?tr2 @ [ApiCall (UsersList 250 []) example_failure, PrintResponse example_failure])"
    by blast
  from c1 o1 e1 a c2 o2 e2 b show ?thesis by blast
qed

text \<open>
  Claim C6. After a successful page has been processed the lookup returns exactly when no
  name is outstanding, or the response has no pagination metadata, or the metadata has no
  cursor or an empty one; it returns the recipients found and the names still outstanding.
  Otherwise the loop goes on with the cursor of the response.
\<close>

theorem pagination_stops:
  assumes "slack srv (UsersList 250 nxt) = (r, srv')" "ok r = Some True"
    "process_page r user_ids users = Inr (user_ids', users')"
  shows "fetch_page slack (user_ids, users, nxt) (srv, tr) =
           (if users' = [] \<or>
               (case response_metadata r of
                  None \<Rightarrow> True
                | Some md \<Rightarrow> (case next_cursor md of None \<Rightarrow> True | Some n \<Rightarrow> n = []))
            then Inr (Inr (user_ids', users'))
            else Inl (user_ids', users', the (next_cursor (the (response_metadata r)))),
            srv', tr @ [ApiCall (UsersList 250 nxt) r]) \<and>
         FetchUserIds_loop slack (user_ids, users, nxt) (srv, tr) =
           (if users' = [] \<or>
               (case response_metadata r of
                  None \<Rightarrow> True
                | Some md \<Rightarrow> (case next_cursor md of None \<Rightarrow> True | Some n \<Rightarrow> n = []))
            then Some (Inr (user_ids', users'), srv', tr @ [ApiCall (UsersList 250 nxt) r])
            else FetchUserIds_loop slack
                   (user_ids', users', the (next_cursor (the (response_metadata r))))
                   (srv', tr @ [ApiCall (UsersList 250 nxt) r]))"
proof -
  note fp = fetch_page_success [where slack = slack, OF assms, of tr]
  show ?thesis
  proof (rule conjI)
    show "fetch_page slack (user_ids, users, nxt) (srv, tr) =
           (if users' = [] \<or>
               (case response_metadata r of
                  None \<Rightarrow> True
                | Some md \<Rightarrow> (case next_cursor md of None \<Rightarrow> True | Some n \<Rightarrow> n = []))
            then Inr (Inr (user_ids', users'))
            else Inl (user_ids', users', the (next_cursor (the (response_metadata r)))),
            srv', tr @ [ApiCall (UsersList 250 nxt) r])"
      by (rule fp)
    show "FetchUserIds_loop slack (user_ids, users, nxt) (srv, tr) =
           (if users' = [] \<or>
               (case response_metadata r of
                  None \<Rightarrow> True
                | Some md \<Rightarrow> (case next_cursor md of None \<Rightarrow> True | Some n \<Rightarrow> n = []))
            then Some (Inr (user_ids', users'), srv', tr @ [ApiCall (UsersList 250 nxt) r])
            else FetchUserIds_loop slack
                   (user_ids', users', the (next_cursor (the (response_metadata r))))
                   (srv', tr @ [ApiCall (UsersList 250 nxt) r]))"
      by (subst FetchUserIds_loop.simps, simp only: fp) (simp split: if_splits)
  qed
qed

theorem pagination_stops_witness:
  "scripted [example_page1, example_page2] (UsersList 250 []) = (example_page1, [example_page2]) \<and>
   ok example_page1 = Some True \<and>
   process_page example_page1 [] [''alice'', ''bob'', ''carol'']
     = Inr ([\<lparr>user_id = ''U1'', name = ''alice''\<rparr>], [''bob'', ''carol'']) \<and>
   fetch_page scripted ([], [''alice'', ''bob'', ''carol''], []) ([example_page1, example_page2], [])
     = (Inl ([\<lparr>user_id = ''U1'', name = ''alice''\<rparr>], [''bob'', ''carol''], ''c2''),
        [example_page2], [ApiCall (UsersList 250 []) example_page1]) \<and>
   scripted [example_page2] (UsersList 250 ''c2'') = (example_page2, []) \<and>
   ok example_page2 = Some True \<and>
   process_page example_page2 [\<lparr>user_id = ''U1'', name = ''alice''\<rparr>] [''bob'', ''carol'']
     = Inr ([\<lparr>user_id = ''U1'', name = ''alice''\<rparr>, \<lparr>user_id = ''U3'', name = ''bob''\<rparr>],
            [''carol'']) \<and>
   FetchUserIds_loop scripted ([\<lparr>user_id = ''U1'', name = ''alice''\<rparr>], [''bob'', ''carol''], ''c2'')
       ([example_page2], [ApiCall (UsersList 250 []) example_page1])
     = Some (Inr ([\<lparr>user_id = ''U1'', name = ''alice''\<rparr>, \<lparr>user_id = ''U3'', name = ''bob''\<rparr>],
                  [''carol'']),
             [], [ApiCall (UsersList 250 []) example_page1,
                  ApiCall (UsersList 250 ''c2'') example_page2])"
proof -
  let ?u1 = "\<lparr>user_id = ''U1'', name = ''alice''\<rparr>"
  let ?u3 = "\<lparr>user_id = ''U3'', name = ''bob''\<rparr>"
  have c1: "scripted [example_page1, example_page2] (UsersList 250 [])
              = (example_page1, [example_page2])" by simp
  have o1: "ok example_page1 = Some True" by (simp add: example_page1_def)
  have p1: "process_page example_page1 [] [''alice'', ''bob'', ''carol'']
              = Inr ([?u1], [''bob'', ''carol''])" by code_simp
  have m1: "response_metadata example_page1 = Some \<lparr>next_cursor = Some ''c2''\<rparr>"
    by (simp add: example_page1_def)
  have c2: "scripted [example_page2] (UsersList 250 ''c2'') = (example_page2, [])" by simp
  have o2: "ok example_page2 = Some True" by (simp add: example_page2_def)
  have p2: "process_page example_page2 [?u1] [''bob'', ''carol'']
              = Inr ([?u1, ?u3], [''carol''])" by code_simp
  have m2: "response_metadata example_page2 = None" by (simp add: example_page2_def)
  from pagination_stops [where slack = scripted, OF c1 o1 p1, of "[]"] m1
  have a: "fetch_page scripted ([], [''alice'', ''bob'', ''carol''], []) ([example_page1, example_page2], [])
     = (Inl ([?u1], [''bob'', ''carol''], ''c2''),
        [example_page2], [ApiCall (UsersList 250 []) example_page1])"
    by simp
  from pagination_stops [where slack = scripted, OF c2 o2 p2, of "[ApiCall (UsersList 250 []) example_page1]"] m2
  have b: "FetchUserIds_loop scripted ([?u1], [''bob'', ''carol''], ''c2'')
       ([example_page2], [ApiCall (UsersList 250 []) example_page1])
     = Some (Inr ([?u1, ?u3], [''carol'']),
             [], [ApiCall (UsersList 250 []) example_page1,
                  ApiCall (UsersList 250 ''c2'') example_page2])"
    by simp
  from c1 o1 p1 a c2 o2 p2 b show ?thesis by blast
qed

section \<open>Sending\<close>

lemma send_loop_dry:
  "send_loop slack msg from_user True users (srv, tr) =
     (Inr (), srv, tr @ map (\<lambda>user. Print (''Would have notified @'' @ name user)) users)"
  by (induction users arbitrary: tr) simp_all

lemma posted_texts_append: "posted_texts (xs @ ys) = posted_texts xs @ posted_texts ys"
  by (induction xs rule: posted_texts.induct) simp_all

lemma posted_texts_prints: "posted_texts (map (\<lambda>x. Print (f x)) xs) = []"
  by (induction xs) simp_all

lemma send_loop_live:
  "send_loop slack msg from_user False users (srv, tr) = (res, srv', tr') \<Longrightarrow>
   \<exists>rs tail. length rs \<le> length users \<and>
     tr' = tr @ concat (map (\<lambda>(user, r).
              [Print (''Notifying @'' @ name user),
               ApiCall (ChatPostMessage (user_id user) msg (username from_user)) r])
            (zip users rs)) @ tail \<and>
     (\<forall>r \<in> set (butlast rs). ok r = Some True) \<and>
     (res = Inr () \<and> length rs = length users \<and> (\<forall>r \<in> set rs. ok r = Some True) \<and> tail = [] \<or>
      res = Inl RuntimeError \<and> rs \<noteq> [] \<and> ok (last rs) = Some False \<and>
        tail = [PrintResponse (last rs)] \<or>
      res = Inl KeyError \<and> rs \<noteq> [] \<and> ok (last rs) = None \<and> tail = [])"
proof (induction users arbitrary: srv tr)
  case Nil
  then have "res = Inr ()" "tr' = tr" by simp_all
  then show ?case by (intro exI [of _ "[]"]) simp
next
  case (Cons user rest)
  let ?req = "ChatPostMessage (user_id user) msg (username from_user)"
  let ?ev = "\<lambda>(user, r). [Print (''Notifying @'' @ name user),
               ApiCall (ChatPostMessage (user_id user) msg (username from_user)) r]"
  obtain r s1 where call: "slack srv ?req = (r, s1)" by (cases "slack srv ?req")
  let ?tr2 = "tr @ [Print (''Notifying @'' @ name user), ApiCall ?req r]"
  show ?case
  proof (cases "ok r")
    case None
    with Cons.prems call have "res = Inl KeyError" "tr' = ?tr2" by (simp_all add: Let_def)
    with None show ?thesis
      by (intro exI [of _ "[r]"] exI [of _ "[]"]) simp
  next
    case (Some b)
    show ?thesis
    proof (cases b)
      case False
      with Some Cons.prems call have "res = Inl RuntimeError" "tr' = ?tr2 @ [PrintResponse r]"
        by (simp_all add: Let_def)
      with Some False show ?thesis
        by (intro exI [of _ "[r]"] exI [of _ "[PrintResponse r]"]) simp
    next
      case True
      with Some Cons.prems call
      have "send_loop slack msg from_user False rest (s1, ?tr2) = (res, srv', tr')"
        by (simp add: Let_def)
      from Cons.IH [OF this] obtain rs tail where
        len: "length rs \<le> length rest" and
        tr': "tr' = ?tr2 @ concat (map ?ev (zip rest rs)) @ tail" and
        bl: "\<forall>r \<in> set (butlast rs). ok r = Some True" and
        fin: "res = Inr () \<and> length rs = length rest \<and> (\<forall>r \<in> set rs. ok r = Some True) \<and> tail = [] \<or>
              res = Inl RuntimeError \<and> rs \<noteq> [] \<and> ok (last rs) = Some False \<and>
                tail = [PrintResponse (last rs)] \<or>
              res = Inl KeyError \<and> rs \<noteq> [] \<and> ok (last rs) = None \<and> tail = []"
        by blast
      have okr: "ok r = Some True" using Some True by simp
      have 1: "length (r # rs) \<le> length (user # rest)" using len by simp
      have 2: "tr' = tr @ concat (map ?ev (zip (user # rest) (r # rs))) @ tail"
        using tr' by simp
      have 3: "\<forall>x \<in> set (butlast (r # rs)). ok x = Some True"
        using bl okr by (cases rs) auto
      have 4: "res = Inr () \<and> length (r # rs) = length (user # rest) \<and>
                 (\<forall>x \<in> set (r # rs). ok x = Some True) \<and> tail = [] \<or>
               res = Inl RuntimeError \<and> r # rs \<noteq> [] \<and> ok (last (r # rs)) = Some False \<and>
                 tail = [PrintResponse (last (r # rs))] \<or>
               res = Inl KeyError \<and> r # rs \<noteq> [] \<and> ok (last (r # rs)) = None \<and> tail = []"
        using fin okr by auto
      from 1 2 3 4 show ?thesis by blast
    qed
  qed
qed

lemma OriginatingUser_init_posts:
  "OriginatingUser_init slack (srv, tr) = (res, srv', tr') \<Longrightarrow> posted_texts tr' = posted_texts tr"
  by (auto simp: Let_def posted_texts_append split: prod.splits option.splits if_splits)

lemma fetch_page_posts:
  "fetch_page slack (user_ids, users, nxt) (srv, tr) = (out, srv', tr') \<Longrightarrow>
   posted_texts tr' = posted_texts tr"
  by (cases rule: fetch_page_cases [of slack srv nxt user_ids users tr])
     (auto simp: posted_texts_append)

lemma FetchUserIds_posts:
  assumes "FetchUserIds slack usernames (srv, tr) = Some (res, srv', tr')"
  shows "posted_texts tr' = posted_texts tr"
proof -
  let ?I = "\<lambda>(v :: fetch_vars) (x :: 'a world). posted_texts (snd x) = posted_texts tr"
  let ?Q = "\<lambda>(r :: fetch_result) (x :: 'a world). posted_texts (snd x) = posted_texts tr"
  from assms have loop: "FetchUserIds_loop slack ([], usernames, []) (srv, tr) = Some (res, srv', tr')"
    by (simp add: FetchUserIds_def)
  have "?Q res (srv', tr')"
  proof (rule FetchUserIds_loop_rule [where I = ?I and Q = ?Q, OF loop])
    show "?I ([], usernames, []) (srv, tr)" by simp
  next
    fix v x v' x'
    assume iv: "?I v x" and fp: "fetch_page slack v x = (Inl v', x')"
    obtain ids us n where v: "v = (ids, us, n)" by (cases v)
    obtain s t where x: "x = (s, t)" by (cases x)
    obtain s' t' where x': "x' = (s', t')" by (cases x')
    from fetch_page_posts [of slack ids us n s t "Inl v'" s' t'] fp v x x' iv
    show "?I v' x'" by simp
  next
    fix v x r x'
    assume iv: "?I v x" and fp: "fetch_page slack v x = (Inr r, x')"
    obtain ids us n where v: "v = (ids, us, n)" by (cases v)
    obtain s t where x: "x = (s, t)" by (cases x)
    obtain s' t' where x': "x' = (s', t')" by (cases x')
    from fetch_page_posts [of slack ids us n s t "Inr r" s' t'] fp v x x' iv
    show "?Q r x'" by simp
  qed
  then show ?thesis by simp
qed

lemma send_loop_posts:
  "send_loop slack msg from_user dry users (srv, tr) = (res, srv', tr') \<Longrightarrow>
   set (posted_texts tr') \<subseteq> set (posted_texts tr) \<union> {msg}"
proof (induction users arbitrary: srv tr)
  case Nil
  then show ?case by auto
next
  case (Cons user rest)
  show ?case
  proof (cases dry)
    case True
    with Cons.prems have "send_loop slack msg from_user dry rest
        (srv, tr @ [Print (''Would have notified @'' @ name user)]) = (res, srv', tr')"
      by simp
    from Cons.IH [OF this] show ?thesis by (simp add: posted_texts_append)
  next
    case False
    let ?req = "ChatPostMessage (user_id user) msg (username from_user)"
    obtain r s1 where call: "slack srv ?req = (r, s1)" by (cases "slack srv ?req")
    let ?tr2 = "tr @ [Print (''Notifying @'' @ name user), ApiCall ?req r]"
    have p2: "set (posted_texts ?tr2) \<subseteq> set (posted_texts tr) \<union> {msg}"
      by (simp add: posted_texts_append)
    show ?thesis
    proof (cases "ok r = Some True")
      case True
      with False Cons.prems call
      have "send_loop slack msg from_user dry rest (s1, ?tr2) = (res, srv', tr')"
        by (simp add: Let_def)
      from Cons.IH [OF this] p2 show ?thesis by blast
    next
      case nok: False
      with False Cons.prems call have "tr' = ?tr2 \<or> tr' = ?tr2 @ [PrintResponse r]"
        by (auto simp: Let_def split: option.splits if_splits)
      with p2 show ?thesis by (auto simp: posted_texts_append)
    qed
  qed
qed

lemma send_posts:
  "send slack msg from_user users dry (srv, tr) = (res, srv', tr') \<Longrightarrow>
   set (posted_texts tr') \<subseteq> set (posted_texts tr) \<union> {msg}"
  by (cases dry) (auto dest!: send_loop_posts simp: posted_texts_append)

lemma unidentified_report_posts: "posted_texts (unidentified_report us) = []"
  by (simp add: unidentified_report_def posted_texts_append posted_texts_prints)

lemma main_posts:
  assumes "main iter fs slack a srv = Some (res, srv', tr)" "t \<in> set (posted_texts tr)"
  shows "\<exists>from_user w1. OriginatingUser_init slack (srv, []) = (Inr from_user, w1) \<and>
           Message_init fs (arg_message a) (arg_url a) (arg_deadline a) from_user = Inr t"
proof (cases "store_args iter fs a")
  case (Inl e)
  with assms show ?thesis by (simp add: main_def)
next
  case (Inr usernames)
  obtain r1 s1 t1 where ou: "OriginatingUser_init slack (srv, []) = (r1, s1, t1)"
    by (cases "OriginatingUser_init slack (srv, [])")
  from OriginatingUser_init_posts [OF ou] have p1: "posted_texts t1 = []" by simp
  show ?thesis
  proof (cases r1)
    case (Inl e)
    with assms Inr ou p1 show ?thesis by (simp add: main_def)
  next
    case from_user: (Inr from_user)
    show ?thesis
    proof (cases "FetchUserIds slack usernames (s1, t1)")
      case None
      with assms Inr ou from_user show ?thesis by (simp add: main_def)
    next
      case (Some y)
      obtain r2 s2 t2 where y: "y = (r2, s2, t2)" by (cases y)
      from FetchUserIds_posts [of slack usernames s1 t1 r2 s2 t2] Some y p1
      have p2: "posted_texts t2 = []" by simp
      show ?thesis
      proof (cases r2)
        case (Inl e)
        with assms Inr ou from_user Some y p2 show ?thesis by (simp add: main_def)
      next
        case found: (Inr p)
        obtain user_ids unidentified where p: "p = (user_ids, unidentified)" by (cases p)
        show ?thesis
        proof (cases "Message_init fs (arg_message a) (arg_url a) (arg_deadline a) from_user")
          case (Inl e)
          with assms Inr ou from_user Some y found p p2 show ?thesis by (simp add: main_def)
        next
          case msg: (Inr msg)
          obtain r3 s3 t3 where sd: "send slack msg from_user user_ids (arg_dry a) (s2, t2) = (r3, s3, t3)"
            by (cases "send slack msg from_user user_ids (arg_dry a) (s2, t2)")
          from send_posts [OF sd] p2 have p3: "set (posted_texts t3) \<subseteq> {msg}" by simp
          have "tr = t3 \<or> tr = t3 @ unidentified_report unidentified"
            using assms(1) Inr ou from_user Some y found p msg sd
            by (cases r3) (auto simp: main_def)
          with p3 assms(2) have "t = msg"
            by (auto simp: posted_texts_append unidentified_report_posts)
          with ou from_user msg show ?thesis by simp
        qed
      qed
    qed
  qed
qed

lemma send_dry_posts:
  "send slack msg from_user users True (srv, tr) = (res, srv', tr') \<Longrightarrow>
   res = Inr () \<and> posted_texts tr' = posted_texts tr"
  by (auto simp: send_loop_dry posted_texts_append posted_texts_prints)

lemma main_dry_posts:
  assumes "main iter fs slack a srv = Some (res, srv', tr)" "arg_dry a"
  shows "posted_texts tr = []"
proof (cases "store_args iter fs a")
  case (Inl e)
  with assms show ?thesis by (simp add: main_def)
next
  case (Inr usernames)
  obtain r1 s1 t1 where ou: "OriginatingUser_init slack (srv, []) = (r1, s1, t1)"
    by (cases "OriginatingUser_init slack (srv, [])")
  from OriginatingUser_init_posts [OF ou] have p1: "posted_texts t1 = []" by simp
  show ?thesis
  proof (cases r1)
    case (Inl e)
    with assms Inr ou p1 show ?thesis by (simp add: main_def)
  next
    case from_user: (Inr from_user)
    show ?thesis
    proof (cases "FetchUserIds slack usernames (s1, t1)")
      case None
      with assms Inr ou from_user show ?thesis by (simp add: main_def)
    next
      case (Some y)
      obtain r2 s2 t2 where y: "y = (r2, s2, t2)" by (cases y)
      from FetchUserIds_posts [of slack usernames s1 t1 r2 s2 t2] Some y p1
      have p2: "posted_texts t2 = []" by simp
      show ?thesis
      proof (cases r2)
        case (Inl e)
        with assms Inr ou from_user Some y p2 show ?thesis by (simp add: main_def)
      next
        case found: (Inr p)
        obtain user_ids unidentified where p: "p = (user_ids, unidentified)" by (cases p)
        show ?thesis
        proof (cases "Message_init fs (arg_message a) (arg_url a) (arg_deadline a) from_user")
          case (Inl e)
          with assms Inr ou from_user Some y found p p2 show ?thesis by (simp add: main_def)
        next
          case msg: (Inr msg)
          obtain r3 s3 t3 where sd: "send slack msg from_user user_ids True (s2, t2) = (r3, s3, t3)"
            by (cases "send slack msg from_user user_ids True (s2, t2)")
          from send_dry_posts [OF sd] p2 have p3: "r3 = Inr ()" "posted_texts t3 = []" by simp_all
          have "tr = t3 @ unidentified_report unidentified"
            using assms Inr ou from_user Some y found p msg sd p3(1)
            by (simp add: main_def)
          with p3 show ?thesis
            by (simp add: posted_texts_append unidentified_report_posts)
        qed
      qed
    qed
  qed
qed

lemma main_send:
  assumes "store_args iter fs a = Inr usernames"
    "OriginatingUser_init slack (srv0, []) = (Inr from_user, w1)"
    "FetchUserIds slack usernames w1 = Some (Inr (users, unidentified_users), srv, tr)"
    "Message_init fs (arg_message a) (arg_url a) (arg_deadline a) from_user = Inr msg"
    "send slack msg from_user users (arg_dry a) (srv, tr) = (res, srv', tr')"
  shows "main iter fs slack a srv0 =
          Some (case res of
                  Inl e \<Rightarrow> (Inl e, srv', tr')
                | Inr u \<Rightarrow> (Inr (), srv', tr' @ unidentified_report unidentified_users))"
  using assms by (cases res) (simp_all add: main_def)

text \<open>
  Claim C7. In live mode the recipients are taken in list order; for each one the notice is
  printed and one message is posted to the recipient's identifier, with the message body as
  text and the originator's handle as sender. The first response that is not a success ends
  the method with RuntimeError after the response is printed (KeyError when the response has
  no success flag): the messages posted are those for the recipients up to and including
  that one, and nothing is done about the earlier ones. The run ends with that error where
  the method ended, with nothing more printed; when every message is accepted the run goes on
  to its report of the names not identified.
\<close>

theorem send_live:
  assumes "send slack msg from_user users False (srv, tr) = (res, srv', tr')"
  shows "(\<exists>rs tail. length rs \<le> length users \<and>
     tr' = tr @ concat (map (\<lambda>(user, r).
              [Print (''Notifying @'' @ name user),
               ApiCall (ChatPostMessage (user_id user) msg (username from_user)) r])
            (zip users rs)) @ tail \<and>
     (\<forall>r \<in> set (butlast rs). ok r = Some True) \<and>
     (res = Inr () \<and> length rs = length users \<and> (\<forall>r \<in> set rs. ok r = Some True) \<and> tail = [] \<or>
      res = Inl RuntimeError \<and> rs \<noteq> [] \<and> ok (last rs) = Some False \<and>
        tail = [PrintResponse (last rs)] \<or>
      res = Inl KeyError \<and> rs \<noteq> [] \<and> ok (last rs) = None \<and> tail = [])) \<and>
     (\<forall>iter fs a srv0 usernames w1 unidentified_users.
        store_args iter fs a = Inr usernames \<and>
        OriginatingUser_init slack (srv0, []) = (Inr from_user, w1) \<and>
        FetchUserIds slack usernames w1 = Some (Inr (users, unidentified_users), srv, tr) \<and>
        Message_init fs (arg_message a) (arg_url a) (arg_deadline a) from_user = Inr msg \<and>
        \<not> arg_dry a \<longrightarrow>
        main iter fs slack a srv0 =
          Some (case res of
                  Inl e \<Rightarrow> (Inl e, srv', tr')
                | Inr u \<Rightarrow> (Inr (), srv', tr' @ unidentified_report unidentified_users)))"
proof (rule conjI)
  from assms have "send_loop slack msg from_user False users (srv, tr) = (res, srv', tr')"
    by simp
  from send_loop_live [OF this]
  show "\<exists>rs tail. length rs \<le> length users \<and>
     tr' = tr @ concat (map (\<lambda>(user, r).
              [Print (''Notifying @'' @ name user),
               ApiCall (ChatPostMessage (user_id user) msg (username from_user)) r])
            (zip users rs)) @ tail \<and>
     (\<forall>r \<in> set (butlast rs). ok r = Some True) \<and>
     (res = Inr () \<and> length rs = length users \<and> (\<forall>r \<in> set rs. ok r = Some True) \<and> tail = [] \<or>
      res = Inl RuntimeError \<and> rs \<noteq> [] \<and> ok (last rs) = Some False \<and>
        tail = [PrintResponse (last rs)] \<or>
      res = Inl KeyError \<and> rs \<noteq> [] \<and> ok (last rs) = None \<and> tail = [])" .
next
  show "(\<forall>iter fs a srv0 usernames w1 unidentified_users.
        store_args iter fs a = Inr usernames \<and>
        OriginatingUser_init slack (srv0, []) = (Inr from_user, w1) \<and>
        FetchUserIds slack usernames w1 = Some (Inr (users, unidentified_users), srv, tr) \<and>
        Message_init fs (arg_message a) (arg_url a) (arg_deadline a) from_user = Inr msg \<and>
        \<not> arg_dry a \<longrightarrow>
        main iter fs slack a srv0 =
          Some (case res of
                  Inl e \<Rightarrow> (Inl e, srv', tr')
                | Inr u \<Rightarrow> (Inr (), srv', tr' @ unidentified_report unidentified_users)))"
  proof (intro allI impI)
    fix iter fs a srv0 usernames w1 unidentified_users
    assume h: "store_args iter fs a = Inr usernames \<and>
        OriginatingUser_init slack (srv0, []) = (Inr from_user, w1) \<and>
        FetchUserIds slack usernames w1 = Some (Inr (users, unidentified_users), srv, tr) \<and>
        Message_init fs (arg_message a) (arg_url a) (arg_deadline a) from_user = Inr msg \<and>
        \<not> arg_dry a"
    with assms have sd: "send slack msg from_user users (arg_dry a) (srv, tr) = (res, srv', tr')"
      by simp
    from h have 1: "store_args iter fs a = Inr usernames"
      and 2: "OriginatingUser_init slack (srv0, []) = (Inr from_user, w1)"
      and 3: "FetchUserIds slack usernames w1 = Some (Inr (users, unidentified_users), srv, tr)"
      and 4: "Message_init fs (arg_message a) (arg_url a) (arg_deadline a) from_user = Inr msg"
      by simp_all
    from main_send [OF 1 2 3 4 sd]
    show "main iter fs slack a srv0 =
          Some (case res of
                  Inl e \<Rightarrow> (Inl e, srv', tr')
                | Inr u \<Rightarrow> (Inr (), srv', tr' @ unidentified_report unidentified_users))" .
  qed
qed

theorem send_live_witness:
  "send scripted ''hello'' \<lparr>username = ''@ann'', firstname = ''Ann''\<rparr>
     [\<lparr>user_id = ''U1'', name = ''alice''\<rparr>, \<lparr>user_id = ''U3'', name = ''bob''\<rparr>,
      \<lparr>user_id = ''U4'', name = ''carol''\<rparr>] False
     ([example_ok, example_failure, example_ok], [])
   = (Inl RuntimeError, [example_ok],
      [Print ''Notifying @alice'', ApiCall (ChatPostMessage ''U1'' ''hello'' ''@ann'') example_ok,
       Print ''Notifying @bob'', ApiCall (ChatPostMessage ''U3'' ''hello'' ''@ann'') example_failure,
       PrintResponse example_failure]) \<and>
   (\<exists>rs tail. length rs \<le> 3 \<and>
      [Print ''Notifying @alice'', ApiCall (ChatPostMessage ''U1'' ''hello'' ''@ann'') example_ok,
       Print ''Notifying @bob'', ApiCall (ChatPostMessage ''U3'' ''hello'' ''@ann'') example_failure,
       PrintResponse example_failure]
      = [] @ concat (map (\<lambda>(user, r).
              [Print (''Notifying @'' @ name user),
               ApiCall (ChatPostMessage (user_id user) ''hello''
                          (username \<lparr>username = ''@ann'', firstname = ''Ann''\<rparr>)) r])
            (zip [\<lparr>user_id = ''U1'', name = ''alice''\<rparr>, \<lparr>user_id = ''U3'', name = ''bob''\<rparr>,
                  \<lparr>user_id = ''U4'', name = ''carol''\<rparr>] rs)) @ tail \<and>
      rs \<noteq> [] \<and> ok (last rs) = Some False \<and> tail = [PrintResponse (last rs)]) \<and>
   send scripted ''Hi {0}'' \<lparr>username = ''@ann'', firstname = ''Ann''\<rparr>
     [\<lparr>user_id = ''U1'', name = ''Alice''\<rparr>] False
     ([example_failure],
      [ApiCall UsersProfileGet example_profile, ApiCall (UsersList 250 []) example_page3])
   = (Inl RuntimeError, [],
      [ApiCall UsersProfileGet example_profile, ApiCall (UsersList 250 []) example_page3,
       Print ''Notifying @Alice'',
       ApiCall (ChatPostMessage ''U1'' ''Hi {0}'' ''@ann'') example_failure,
       PrintResponse example_failure]) \<and>
   FetchUserIds scripted [''Alice'', ''bob'']
     ([example_page3, example_failure], [ApiCall UsersProfileGet example_profile])
   = Some (Inr ([\<lparr>user_id = ''U1'', name = ''Alice''\<rparr>], [''bob'']), [example_failure],
           [ApiCall UsersProfileGet example_profile, ApiCall (UsersList 250 []) example_page3]) \<and>
   \<not> arg_dry example_args_file \<and>
   main ascending_iteration example_files scripted example_args_file
     [example_profile, example_page3, example_failure]
   = Some (Inl RuntimeError, [],
      [ApiCall UsersProfileGet example_profile, ApiCall (UsersList 250 []) example_page3,
       Print ''Notifying @Alice'',
       ApiCall (ChatPostMessage ''U1'' ''Hi {0}'' ''@ann'') example_failure,
       PrintResponse example_failure])"
proof -
  let ?users = "[\<lparr>user_id = ''U1'', name = ''alice''\<rparr>, \<lparr>user_id = ''U3'', name = ''bob''\<rparr>,
      \<lparr>user_id = ''U4'', name = ''carol''\<rparr>]"
  let ?from = "\<lparr>username = ''@ann'', firstname = ''Ann''\<rparr>"
  let ?tr = "[Print ''Notifying @alice'', ApiCall (ChatPostMessage ''U1'' ''hello'' ''@ann'') example_ok,
       Print ''Notifying @bob'', ApiCall (ChatPostMessage ''U3'' ''hello'' ''@ann'') example_failure,
       PrintResponse example_failure]"
  have run: "send scripted ''hello'' ?from ?users False ([example_ok, example_failure, example_ok], [])
     = (Inl RuntimeError, [example_ok], ?tr)"
    by code_simp
  let ?ev = "\<lambda>(user, r).
              [Print (''Notifying @'' @ name user),
               ApiCall (ChatPostMessage (user_id user) ''hello'' (username ?from)) r]"
  from send_live [where slack = scripted, OF run] obtain rs tail where
    len: "length rs \<le> length ?users" and
    tr: "?tr = [] @ concat (map ?ev (zip ?users rs)) @ tail" and
    fin: "(Inl RuntimeError :: py_error + unit) = Inr () \<and> length rs = length ?users \<and>
            (\<forall>r \<in> set rs. ok r = Some True) \<and> tail = [] \<or>
          (Inl RuntimeError :: py_error + unit) = Inl RuntimeError \<and> rs \<noteq> [] \<and>
            ok (last rs) = Some False \<and> tail = [PrintResponse (last rs)] \<or>
          (Inl RuntimeError :: py_error + unit) = Inl KeyError \<and> rs \<noteq> [] \<and>
            ok (last rs) = None \<and> tail = []"
    by blast
  from fin have fin': "rs \<noteq> [] \<and> ok (last rs) = Some False \<and> tail = [PrintResponse (last rs)]"
    by simp
  from len have len': "length rs \<le> 3" by simp
  from len' tr fin' have "\<exists>rs tail. length rs \<le> 3 \<and>
      ?tr = [] @ concat (map ?ev (zip ?users rs)) @ tail \<and>
      rs \<noteq> [] \<and> ok (last rs) = Some False \<and> tail = [PrintResponse (last rs)]"
    by blast
  note first = this
  let ?tr2 = "[ApiCall UsersProfileGet example_profile, ApiCall (UsersList 250 []) example_page3]"
  let ?tr3 = "[ApiCall UsersProfileGet example_profile, ApiCall (UsersList 250 []) example_page3,
       Print ''Notifying @Alice'',
       ApiCall (ChatPostMessage ''U1'' ''Hi {0}'' ''@ann'') example_failure,
       PrintResponse example_failure]"
  have run2: "send scripted ''Hi {0}'' ?from [\<lparr>user_id = ''U1'', name = ''Alice''\<rparr>] False
     ([example_failure], ?tr2) = (Inl RuntimeError, [], ?tr3)"
    by code_simp
  have sa: "store_args ascending_iteration example_files example_args_file = Inr [''Alice'', ''bob'']"
    by code_simp
  have ou: "OriginatingUser_init scripted ([example_profile, example_page3, example_failure], [])
      = (Inr ?from, [example_page3, example_failure], [ApiCall UsersProfileGet example_profile])"
    by code_simp
  have fu: "FetchUserIds scripted [''Alice'', ''bob'']
     ([example_page3, example_failure], [ApiCall UsersProfileGet example_profile])
   = Some (Inr ([\<lparr>user_id = ''U1'', name = ''Alice''\<rparr>], [''bob'']), [example_failure], ?tr2)"
    by code_simp
  have mi: "Message_init example_files (arg_message example_args_file) (arg_url example_args_file)
      (arg_deadline example_args_file) ?from = Inr ''Hi {0}''"
    by code_simp
  have nd: "\<not> arg_dry example_args_file" by (simp add: example_args_file_def)
  from send_live [where slack = scripted, OF run2] sa ou fu mi nd
  have "main ascending_iteration example_files scripted example_args_file
     [example_profile, example_page3, example_failure]
   = Some (case (Inl RuntimeError :: py_error + unit) of
             Inl e \<Rightarrow> (Inl e, [], ?tr3)
           | Inr u \<Rightarrow> (Inr (), [], ?tr3 @ unidentified_report [''bob'']))"
    by blast
  then have m: "main ascending_iteration example_files scripted example_args_file
     [example_profile, example_page3, example_failure] = Some (Inl RuntimeError, [], ?tr3)"
    by (simp only: sum.case)
  from run first run2 fu nd m show ?thesis by blast
qed

text \<open>
  Claim C9. In dry-run mode sending leaves the service as it was. Its output is a separator
  line, the message body, a separator line and an empty line, then one
  \<open>Would have notified\<close> line for each recipient, in list order. A run in dry-run
  mode posts no message at all.
\<close>

theorem send_dry_run:
  "send slack msg from_user users True (srv, tr) =
     (Inr (), srv,
      tr @ [Print (replicate 80 CHR ''-''), Print msg, Print (replicate 80 CHR ''-''), Print []]
         @ map (\<lambda>user. Print (''Would have notified @'' @ name user)) users) \<and>
   (main iter fs slack a srv0 = Some (res, srv', tr') \<and> arg_dry a \<longrightarrow> posted_texts tr' = [])"
  using main_dry_posts [of iter fs slack a srv0 res srv' tr']
  by (simp add: send_loop_dry)

theorem send_dry_run_witness:
  "main ascending_iteration example_files scripted example_args_dry
     [example_profile, example_page3]
     = Some (Inr (), [],
         [ApiCall UsersProfileGet example_profile,
          ApiCall (UsersList 250 []) example_page3,
          Print (replicate 80 CHR ''-''), Print ''Hi {0}'', Print (replicate 80 CHR ''-''), Print [],
          Print ''Would have notified @Alice'',
          Print [], Print ''*** Unable to identify the following users ***'', Print ''@bob'']) \<and>
   arg_dry example_args_dry \<and>
   posted_texts
     [ApiCall UsersProfileGet example_profile,
      ApiCall (UsersList 250 []) example_page3,
      Print (replicate 80 CHR ''-''), Print ''Hi {0}'', Print (replicate 80 CHR ''-''), Print [],
      Print ''Would have notified @Alice'',
      Print [], Print ''*** Unable to identify the following users ***'', Print ''@bob''] = []"
proof -
  let ?tr = "[ApiCall UsersProfileGet example_profile,
          ApiCall (UsersList 250 []) example_page3,
          Print (replicate 80 CHR ''-''), Print ''Hi {0}'', Print (replicate 80 CHR ''-''), Print [],
          Print ''Would have notified @Alice'',
          Print [], Print ''*** Unable to identify the following users ***'', Print ''@bob'']"
  have run: "main ascending_iteration example_files scripted example_args_dry
     [example_profile, example_page3] = Some (Inr (), [], ?tr)"
    by code_simp
  have d: "arg_dry example_args_dry" by (simp add: example_args_dry_def)
  from send_dry_run [of scripted "[]" "\<lparr>username = ''@ann'', firstname = ''Ann''\<rparr>" "[]" "[]" "[]"
      ascending_iteration example_files example_args_dry "[example_profile, example_page3]"
      "Inr ()" "[]" ?tr] run d
  have "posted_texts ?tr = []" by blast
  with run d show ?thesis by blast
qed

section \<open>The message body\<close>

lemma format_default_message:
  "\<exists>l0 l1 l2 l3 l4.
     default_message = [Lit l0, Field 0, Lit l1, Field 1, Lit l2, Field 2, Lit l3, Field 0, Lit l4] \<and>
     (\<forall>f u d. format_pieces default_message [f, u, d] =
               Inr (l0 @ f @ l1 @ u @ l2 @ d @ l3 @ f @ l4))"
  unfolding default_message_def by (intro exI conjI) (rule refl, simp)

text \<open>
  Claim C8. When a message file is given, the body is the text of the file as it is, with
  no field replaced. Otherwise the body is the built-in template with its fields replaced by
  the originator's first name, the url and the deadline, in that order. A run computes one
  body: every message posted in a run carries the body computed from the run's arguments
  and its originator.
\<close>

theorem message_body:
  "(truthy message_file \<longrightarrow>
      Message_init fs message_file url deadline from_user =
        (case fs (the message_file) of None \<Rightarrow> Inl OSError | Some text \<Rightarrow> Inr text)) \<and>
   (\<not> truthy message_file \<longrightarrow>
      Message_init fs message_file url deadline from_user =
        format_pieces default_message [firstname from_user, py_str url, py_str deadline]) \<and>
   (\<exists>l0 l1 l2 l3 l4.
      default_message = [Lit l0, Field 0, Lit l1, Field 1, Lit l2, Field 2, Lit l3, Field 0, Lit l4] \<and>
      (\<forall>f u d. format_pieces default_message [f, u, d] =
                Inr (l0 @ f @ l1 @ u @ l2 @ d @ l3 @ f @ l4))) \<and>
   (main iter fs slack a srv = Some (res, srv', tr) \<and> t \<in> set (posted_texts tr) \<longrightarrow>
      (\<exists>sender w1. OriginatingUser_init slack (srv, []) = (Inr sender, w1) \<and>
         Message_init fs (arg_message a) (arg_url a) (arg_deadline a) sender = Inr t))"
proof (intro conjI impI)
  obtain l0 l1 l2 l3 l4 where
    fmt: "\<forall>f u d. format_pieces default_message [f, u, d] =
                Inr (l0 @ f @ l1 @ u @ l2 @ d @ l3 @ f @ l4)"
    using format_default_message by blast
  show "Message_init fs message_file url deadline from_user =
        (case fs (the message_file) of None \<Rightarrow> Inl OSError | Some text \<Rightarrow> Inr text)"
    if "truthy message_file"
    using that fmt by (simp add: Message_init_def)
  show "Message_init fs message_file url deadline from_user =
        format_pieces default_message [firstname from_user, py_str url, py_str deadline]"
    if "\<not> truthy message_file"
    using that fmt by (simp add: Message_init_def)
next
  show "\<exists>l0 l1 l2 l3 l4.
      default_message = [Lit l0, Field 0, Lit l1, Field 1, Lit l2, Field 2, Lit l3, Field 0, Lit l4] \<and>
      (\<forall>f u d. format_pieces default_message [f, u, d] =
                Inr (l0 @ f @ l1 @ u @ l2 @ d @ l3 @ f @ l4))"
    by (rule format_default_message)
next
  assume "main iter fs slack a srv = Some (res, srv', tr) \<and> t \<in> set (posted_texts tr)"
  then have m: "main iter fs slack a srv = Some (res, srv', tr)"
    and t: "t \<in> set (posted_texts tr)" by simp_all
  from main_posts [OF m t]
  show "\<exists>sender w1. OriginatingUser_init slack (srv, []) = (Inr sender, w1) \<and>
         Message_init fs (arg_message a) (arg_url a) (arg_deadline a) sender = Inr t" .
qed


theorem message_body_witness:
  "truthy (Some ''body.txt'') \<and>
   Message_init example_files (Some ''body.txt'') (Some ''http://x'') (Some ''Monday'')
     \<lparr>username = ''@ann'', firstname = ''Ann''\<rparr> = Inr ''Hi {0}'' \<and>
   \<not> truthy None \<and>
   Message_init example_files None (Some ''http://x'') (Some ''Monday'')
     \<lparr>username = ''@ann'', firstname = ''Ann''\<rparr>
     = format_pieces default_message [''Ann'', ''http://x'', ''Monday''] \<and>
   main ascending_iteration example_files scripted example_args_file
     [example_profile, example_page3, example_ok]
     = Some (Inr (), [],
         [ApiCall UsersProfileGet example_profile,
          ApiCall (UsersList 250 []) example_page3,
          Print ''Notifying @Alice'',
          ApiCall (ChatPostMessage ''U1'' ''Hi {0}'' ''@ann'') example_ok,
          Print [], Print ''*** Unable to identify the following users ***'', Print ''@bob'']) \<and>
   (\<exists>sender w1.
      OriginatingUser_init scripted ([example_profile, example_page3, example_ok], [])
        = (Inr sender, w1) \<and>
      Message_init example_files (arg_message example_args_file) (arg_url example_args_file)
        (arg_deadline example_args_file) sender = Inr ''Hi {0}'')"
proof -
  let ?ann = "\<lparr>username = ''@ann'', firstname = ''Ann''\<rparr>"
  let ?tr = "[ApiCall UsersProfileGet example_profile,
          ApiCall (UsersList 250 []) example_page3,
          Print ''Notifying @Alice'',
          ApiCall (ChatPostMessage ''U1'' ''Hi {0}'' ''@ann'') example_ok,
          Print [], Print ''*** Unable to identify the following users ***'', Print ''@bob'']"
  have t1: "truthy (Some ''body.txt'')" by simp
  have t2: "\<not> truthy None" by simp
  have f: "example_files (the (Some ''body.txt'')) = Some ''Hi {0}''"
    by (simp add: example_files_def)
  have run: "main ascending_iteration example_files scripted example_args_file
     [example_profile, example_page3, example_ok] = Some (Inr (), [], ?tr)"
    by code_simp
  have mem: "''Hi {0}'' \<in> set (posted_texts ?tr)" by simp
  note a = message_body [of "Some ''body.txt''" example_files "Some ''http://x''" "Some ''Monday''"
      ?ann ascending_iteration scripted example_args_file
      "[example_profile, example_page3, example_ok]" "Inr ()" "[]" ?tr "''Hi {0}''"]
  note b = message_body [of None example_files "Some ''http://x''" "Some ''Monday''"
      ?ann ascending_iteration scripted example_args_file
      "[example_profile, example_page3, example_ok]" "Inr ()" "[]" ?tr "''Hi {0}''"]
  from a t1 f have 1: "Message_init example_files (Some ''body.txt'') (Some ''http://x'')
      (Some ''Monday'') ?ann = Inr ''Hi {0}''" by simp
  from b t2 have 2: "Message_init example_files None (Some ''http://x'') (Some ''Monday'') ?ann
     = format_pieces default_message [''Ann'', ''http://x'', ''Monday'']" by simp
  from a run mem have 3: "\<exists>sender w1.
      OriginatingUser_init scripted ([example_profile, example_page3, example_ok], [])
        = (Inr sender, w1) \<and>
      Message_init example_files (arg_message example_args_file) (arg_url example_args_file)
        (arg_deadline example_args_file) sender = Inr ''Hi {0}''" by blast
  from t1 1 t2 2 run 3 show ?thesis by blast
qed

section \<open>Option validation\<close>





end
